theory Spec2Isabelle
  imports Main
begin

section \<open>JavaScript values\<close>

text \<open>
  The plugin of \<^verbatim>\<open>src/index.js\<close> works on untyped data: the manifest
  (\<^verbatim>\<open>serverless.service\<close>), the trigger declarations, the queue resource
  definitions and the replies of the queue backend are plain JavaScript values. They are
  embedded as the datatype \<open>jsval\<close>.

  \<^item> An object is the list of its own enumerable properties, in the order in which
    \<^verbatim>\<open>Object.keys\<close> reports them; a JavaScript object has no two properties of
    the same name, so the keys of an object are distinct; a property that depends on it
    says so.
  \<^item> A number is an integer; the manifest's counts, timeouts and sizes are integers.
    JavaScript represents the integers up to \<open>2\<^sup>5\<^sup>3 - 1\<close> in magnitude exactly, and
    \<^verbatim>\<open>Number.prototype.toString\<close> renders them in decimal (\<open>safe_integer\<close>).
    Fractions, larger numbers, \<^verbatim>\<open>NaN\<close> and the infinities are outside the
    embedding.
  \<^item> A string is the list of its characters. The program splits and indexes strings by
    character; the names of the manifest are taken to be ASCII.
  \<^item> Functions are not values of the embedding. Members inherited from a prototype are
    functions (apart from \<^verbatim>\<open>length\<close>, which is modelled), and a function has none of
    the properties this program reads, so an inherited member behaves on every path of the
    program like a missing one.
\<close>

datatype jsval =
    JUndefined
  | JNull
  | JBool bool
  | JNum int
  | JStr string
  | JArr "jsval list"
  | JObj "(string \<times> jsval) list"

text \<open>
  What a \<^verbatim>\<open>throw\<close> or a rejected promise carries: a \<^verbatim>\<open>TypeError\<close> of the
  runtime (reading a property of \<^verbatim>\<open>undefined\<close> or \<^verbatim>\<open>null\<close>, destructuring
  a value that is not iterable, calling what is not a function), an \<^verbatim>\<open>Error\<close>
  constructed by the program with its message, or the error value that a callback or a
  promise of a collaborator reported.
\<close>

datatype thrown =
    TypeError
  | Error string
  | Reason jsval

type_synonym 'a result = "thrown + 'a"

definition bindE :: "'a result \<Rightarrow> ('a \<Rightarrow> 'b result) \<Rightarrow> 'b result" where
  "bindE m f = (case m of Inl e \<Rightarrow> Inl e | Inr v \<Rightarrow> f v)"

text \<open>\<^verbatim>\<open>if (v)\<close>, \<^verbatim>\<open>!v\<close>, \<^verbatim>\<open>a && b\<close> and \<^verbatim>\<open>a || b\<close> test truthiness.\<close>

fun truthy :: "jsval \<Rightarrow> bool" where
  "truthy JUndefined = False"
| "truthy JNull = False"
| "truthy (JBool b) = b"
| "truthy (JNum n) = (n \<noteq> 0)"
| "truthy (JStr s) = (s \<noteq> [])"
| "truthy (JArr xs) = True"
| "truthy (JObj kvs) = True"

text \<open>\<^verbatim>\<open>typeof v === 'string'\<close> and \<^verbatim>\<open>typeof v === 'number'\<close>.\<close>

fun is_string :: "jsval \<Rightarrow> bool" where
  "is_string (JStr s) = True"
| "is_string v = False"

fun is_number :: "jsval \<Rightarrow> bool" where
  "is_number (JNum n) = True"
| "is_number v = False"

subsection \<open>Numbers and values as strings\<close>

definition digit_char :: "nat \<Rightarrow> char" where
  "digit_char d =
     (if d = 0 then CHR ''0'' else if d = 1 then CHR ''1'' else if d = 2 then CHR ''2''
      else if d = 3 then CHR ''3'' else if d = 4 then CHR ''4'' else if d = 5 then CHR ''5''
      else if d = 6 then CHR ''6'' else if d = 7 then CHR ''7'' else if d = 8 then CHR ''8''
      else CHR ''9'')"

fun nat_toString :: "nat \<Rightarrow> string" where
  "nat_toString n =
     (if n < 10 then [digit_char n] else nat_toString (n div 10) @ [digit_char (n mod 10)])"

declare nat_toString.simps [simp del]

text \<open>\<^verbatim>\<open>n.toString()\<close> for an integer \<open>n\<close> that JavaScript represents exactly.\<close>

definition safe_integer :: "int \<Rightarrow> bool" where
  "safe_integer n = (\<bar>n\<bar> \<le> 9007199254740991)"

definition num_toString :: "int \<Rightarrow> string" where
  "num_toString n = (if n < 0 then CHR ''-'' # nat_toString (nat (- n)) else nat_toString (nat n))"

fun join_with :: "string \<Rightarrow> string list \<Rightarrow> string" where
  "join_with sep [] = []"
| "join_with sep [x] = x"
| "join_with sep (x # y # ys) = x @ sep @ join_with sep (y # ys)"

text \<open>
  The conversion of a value to a string, as a template literal and a computed property
  key (\<^verbatim>\<open>obj[v]\<close>) apply it: an array joins its elements with commas, writing
  nothing for \<^verbatim>\<open>undefined\<close> and \<^verbatim>\<open>null\<close> elements.
\<close>

fun js_toString :: "jsval \<Rightarrow> string"
  and joinElems :: "jsval list \<Rightarrow> string list" where
  "js_toString JUndefined = ''undefined''"
| "js_toString JNull = ''null''"
| "js_toString (JBool b) = (if b then ''true'' else ''false'')"
| "js_toString (JNum n) = num_toString n"
| "js_toString (JStr s) = s"
| "js_toString (JArr xs) = join_with '','' (joinElems xs)"
| "js_toString (JObj kvs) = ''[object Object]''"
| "joinElems [] = []"
| "joinElems (x # xs) =
     (case x of JUndefined \<Rightarrow> [] | JNull \<Rightarrow> [] | _ \<Rightarrow> js_toString x) # joinElems xs"

subsection \<open>Properties\<close>

text \<open>The index keys \<^verbatim>\<open>"0"\<close>, \<^verbatim>\<open>"1"\<close>, ... of an array or a string of length \<open>n\<close>.\<close>

definition index_keys :: "nat \<Rightarrow> string list" where
  "index_keys n = map nat_toString [0..<n]"

text \<open>
  \<^verbatim>\<open>v[k]\<close> and \<^verbatim>\<open>v.k\<close>. Reading a property of \<^verbatim>\<open>undefined\<close> or
  \<^verbatim>\<open>null\<close> raises a \<^verbatim>\<open>TypeError\<close>; a number or a boolean has no property of
  its own; a missing property reads as \<^verbatim>\<open>undefined\<close>.
\<close>

fun get_prop :: "jsval \<Rightarrow> string \<Rightarrow> jsval result" where
  "get_prop JUndefined k = Inl TypeError"
| "get_prop JNull k = Inl TypeError"
| "get_prop (JBool b) k = Inr JUndefined"
| "get_prop (JNum n) k = Inr JUndefined"
| "get_prop (JStr s) k =
     (if k = ''length'' then Inr (JNum (int (length s)))
      else case map_of (zip (index_keys (length s)) s) k of
             None \<Rightarrow> Inr JUndefined
           | Some c \<Rightarrow> Inr (JStr [c]))"
| "get_prop (JArr xs) k =
     (if k = ''length'' then Inr (JNum (int (length xs)))
      else case map_of (zip (index_keys (length xs)) xs) k of
             None \<Rightarrow> Inr JUndefined
           | Some v \<Rightarrow> Inr v)"
| "get_prop (JObj kvs) k =
     (case map_of kvs k of None \<Rightarrow> Inr JUndefined | Some v \<Rightarrow> Inr v)"

text \<open>
  The property read where it cannot raise: behind a test that the value is truthy, after
  an earlier read of the same value, in lodash's \<^verbatim>\<open>get\<close>, and in the statements
  about values that are neither \<^verbatim>\<open>undefined\<close> nor \<^verbatim>\<open>null\<close>.
\<close>

definition prop_of :: "jsval \<Rightarrow> string \<Rightarrow> jsval" where
  "prop_of v k = (case get_prop v k of Inl e \<Rightarrow> JUndefined | Inr x \<Rightarrow> x)"

text \<open>
  \<^verbatim>\<open>obj[k] = v\<close> on an object: an existing property keeps its place, a new one is
  added after the others. (JavaScript lists a key that is an array index before the other
  keys. The loops of \<^verbatim>\<open>createInitialQueue\<close> add the keys of an object in the order
  of \<^verbatim>\<open>Object.keys\<close> of that object, which has the index keys first already.)
\<close>

fun set_prop :: "(string \<times> jsval) list \<Rightarrow> string \<Rightarrow> jsval \<Rightarrow> (string \<times> jsval) list" where
  "set_prop [] k v = [(k, v)]"
| "set_prop ((k', v') # kvs) k v =
     (if k' = k then (k, v) # kvs else (k', v') # set_prop kvs k v)"

text \<open>\<^verbatim>\<open>Object.keys(v)\<close>; it raises on \<^verbatim>\<open>undefined\<close> and \<^verbatim>\<open>null\<close>.\<close>

fun Object_keys :: "jsval \<Rightarrow> string list result" where
  "Object_keys JUndefined = Inl TypeError"
| "Object_keys JNull = Inl TypeError"
| "Object_keys (JBool b) = Inr []"
| "Object_keys (JNum n) = Inr []"
| "Object_keys (JStr s) = Inr (index_keys (length s))"
| "Object_keys (JArr xs) = Inr (index_keys (length xs))"
| "Object_keys (JObj kvs) = Inr (map fst kvs)"

text \<open>
  Array destructuring \<^verbatim>\<open>const [x] = v\<close>: the first element that iterating \<open>v\<close>
  yields, \<^verbatim>\<open>undefined\<close> when it yields none; only arrays and strings are iterable.
\<close>

fun destructure_first :: "jsval \<Rightarrow> jsval result" where
  "destructure_first (JArr []) = Inr JUndefined"
| "destructure_first (JArr (x # xs)) = Inr x"
| "destructure_first (JStr []) = Inr JUndefined"
| "destructure_first (JStr (c # cs)) = Inr (JStr [c])"
| "destructure_first v = Inl TypeError"

section \<open>Queue name resolution\<close>

text \<open>
  \<^verbatim>\<open>arn.split(':')\<close>: the fields between the colons; a string without a colon is one
  field, and the empty string is one empty field.
\<close>

fun split_colon :: "string \<Rightarrow> string list" where
  "split_colon [] = [[]]"
| "split_colon (c # cs) =
     (if c = CHR '':'' then [] # split_colon cs
      else case split_colon cs of
             [] \<Rightarrow> [[c]]
           | f # fs \<Rightarrow> (c # f) # fs)"

text \<open>
  \<^verbatim>\<open>const [, , , , , QueueName] = arn.split(':'); return QueueName\<close>: the sixth field,
  \<^verbatim>\<open>undefined\<close> when the string has fewer than six.
\<close>

definition extractQueueNameFromARN :: "string \<Rightarrow> jsval" where
  "extractQueueNameFromARN arn =
     (let fields = split_colon arn
      in if 5 < length fields then JStr (fields ! 5) else JUndefined)"

text \<open>
  The plugin instance: the manifest \<^verbatim>\<open>this.service\<close>, the command line options
  \<^verbatim>\<open>this.options\<close> and the plugin's own configuration \<^verbatim>\<open>this.config\<close>.
\<close>

record plugin =
  service :: jsval
  options :: jsval
  config :: jsval

text \<open>
  \<^verbatim>\<open>(service && service.custom && service.custom[pluginName]) || {}\<close>. A truthy value
  is neither \<^verbatim>\<open>undefined\<close> nor \<^verbatim>\<open>null\<close>, so the property reads behind
  \<^verbatim>\<open>&&\<close> cannot raise.
\<close>

definition getConfig :: "jsval \<Rightarrow> string \<Rightarrow> jsval" where
  "getConfig srv pluginName =
     (if \<not> truthy srv then JObj []
      else if \<not> truthy (prop_of srv ''custom'') then JObj []
      else if \<not> truthy (prop_of (prop_of srv ''custom'') pluginName) then JObj []
      else prop_of (prop_of srv ''custom'') pluginName)"

definition new_plugin :: "jsval \<Rightarrow> jsval \<Rightarrow> plugin" where
  "new_plugin srv opts =
     \<lparr> service = srv, options = opts, config = getConfig srv ''serverless-offline-sqs-local'' \<rparr>"

text \<open>
  The guarded lookup of \<^verbatim>\<open>getQueueName\<close>:
  \<^verbatim>\<open>this.service && this.service.resources && this.service.resources.Resources &&
  Resources[ResourceName] && Resources[ResourceName].Properties &&
  typeof Resources[ResourceName].Properties.QueueName === 'string'\<close>.
\<close>

definition catalog_QueueName :: "jsval \<Rightarrow> jsval \<Rightarrow> jsval option" where
  "catalog_QueueName srv resourceName =
     (if \<not> truthy srv then None
      else let resources = prop_of srv ''resources'' in
        if \<not> truthy resources then None
        else let Resources = prop_of resources ''Resources'' in
          if \<not> truthy Resources then None
          else let resource = prop_of Resources (js_toString resourceName) in
            if \<not> truthy resource then None
            else let Properties = prop_of resource ''Properties'' in
              if \<not> truthy Properties then None
              else let QueueName = prop_of Properties ''QueueName'' in
                if is_string QueueName then Some QueueName else None)"

definition getQueueName :: "plugin \<Rightarrow> jsval \<Rightarrow> jsval result" where
  "getQueueName this queueEvent =
     (case queueEvent of
        JStr s \<Rightarrow> Inr (extractQueueNameFromARN s)
      | _ \<Rightarrow>
        bindE (get_prop queueEvent ''arn'') (\<lambda>arn.
          case arn of
            JStr s \<Rightarrow> Inr (extractQueueNameFromARN s)
          | _ \<Rightarrow>
            bindE (get_prop queueEvent ''queueName'') (\<lambda>queueName.
              if is_string queueName then Inr queueName
              else
                bindE (get_prop arn ''Fn::GetAtt'') (\<lambda>getAtt.
                  if truthy getAtt then
                    bindE (destructure_first getAtt) (\<lambda>ResourceName.
                      case catalog_QueueName (service this) ResourceName of
                        Some name \<Rightarrow> Inr name
                      | None \<Rightarrow> Inl (Error ''QueueName not found''))
                  else Inl (Error ''QueueName not found'')))))"

section \<open>Effects\<close>

text \<open>
  What the plugin does to its collaborators is recorded as a trace of actions, in program
  order. A log line is recorded with the values that are interpolated into it.
\<close>

datatype log_entry =
    Log_text string
  | Log_invoke jsval string
  | Log_done bool jsval
  | Console_error thrown
  | Console_blank

datatype action =
    Log log_entry
  | Invoke string jsval
  | CreateQueue jsval
  | GetQueueUrl jsval
  | ReceiveMessage jsval
  | DeleteMessageBatch jsval
  | StartPoller string jsval

text \<open>
  \<^verbatim>\<open>fromCallback\<close> turns a node-style callback into a promise: the promise is rejected
  when the callback reports a truthy error, and fulfilled with the data otherwise. A
  callback's arguments are the pair \<open>(err, data)\<close>.
\<close>

definition fromCallback :: "jsval \<times> jsval \<Rightarrow> jsval result" where
  "fromCallback cb = (if truthy (fst cb) then Inl (Reason (fst cb)) else Inr (snd cb))"

fun mapE :: "('a \<Rightarrow> 'b result) \<Rightarrow> 'a list \<Rightarrow> 'b list result" where
  "mapE f [] = Inr []"
| "mapE f (x # xs) = bindE (f x) (\<lambda>y. bindE (mapE f xs) (\<lambda>ys. Inr (y # ys)))"

section \<open>The invocation event\<close>

text \<open>
  The arrow function of \<^verbatim>\<open>eventHandler\<close> that turns one message into one record. Its
  parameter destructures the message, which raises on \<^verbatim>\<open>undefined\<close> and
  \<^verbatim>\<open>null\<close>.
\<close>

definition record_of :: "jsval \<Rightarrow> jsval \<Rightarrow> jsval result" where
  "record_of queueEvent message =
     bindE (get_prop message ''MessageId'') (\<lambda>messageId.
     bindE (get_prop message ''ReceiptHandle'') (\<lambda>receiptHandle.
     bindE (get_prop message ''Body'') (\<lambda>body.
     bindE (get_prop message ''Attributes'') (\<lambda>attributes.
     bindE (get_prop message ''MessageAttributes'') (\<lambda>messageAttributes.
     bindE (get_prop message ''MD5OfBody'') (\<lambda>md5OfBody.
     bindE (get_prop queueEvent ''arn'') (\<lambda>arn.
       Inr (JObj [(''messageId'', messageId),
                  (''receiptHandle'', receiptHandle),
                  (''body'', body),
                  (''attributes'', attributes),
                  (''messageAttributes'', messageAttributes),
                  (''md5OfBody'', md5OfBody),
                  (''eventSource'', JStr ''aws:sqs''),
                  (''eventSourceARN'', arn),
                  (''awsRegion'', JStr ''us-west-2'')]))))))))"

text \<open>
  \<^verbatim>\<open>{ Records: messages.map(...) }\<close>. Only an array has a \<^verbatim>\<open>map\<close> method;
  calling it on anything else raises.
\<close>

definition buildEvent :: "jsval \<Rightarrow> jsval \<Rightarrow> jsval result" where
  "buildEvent queueEvent messages =
     (case messages of
        JArr ms \<Rightarrow> bindE (mapE (record_of queueEvent) ms) (\<lambda>rs. Inr (JObj [(''Records'', JArr rs)]))
      | _ \<Rightarrow> Inl TypeError)"

text \<open>
  The same construction with the array of messages held as a store, to say what it does
  to the messages. \<^verbatim>\<open>messages.map\<close> calls the arrow function on the elements in
  turn. The arrow function reads the properties of its parameter and of the trigger and
  builds a new object; it assigns to nothing, so each call hands the store on as it found
  it. The result is the event, or what was raised, and the store afterwards.
\<close>

fun map_store :: "jsval \<Rightarrow> nat list \<Rightarrow> jsval list \<Rightarrow> jsval list result \<times> jsval list" where
  "map_store queueEvent [] store = (Inr [], store)"
| "map_store queueEvent (i # indices) store =
     (case record_of queueEvent (store ! i) of
        Inl t \<Rightarrow> (Inl t, store)
      | Inr r \<Rightarrow>
          (case map_store queueEvent indices store of
             (rs, store') \<Rightarrow> (bindE rs (\<lambda>rs. Inr (r # rs)), store')))"

definition buildEvent_store :: "jsval \<Rightarrow> jsval list \<Rightarrow> jsval result \<times> jsval list" where
  "buildEvent_store queueEvent store =
     (case map_store queueEvent [0..<length store] store of
        (rs, store') \<Rightarrow> (bindE rs (\<lambda>rs. Inr (JObj [(''Records'', JArr rs)])), store'))"

text \<open>
  The handler bridge (\<^verbatim>\<open>getFunction\<close>, \<^verbatim>\<open>getFunctionOptions\<close>,
  \<^verbatim>\<open>createHandler\<close>, \<^verbatim>\<open>createLambdaContext\<close> of serverless-offline) is a
  collaborator. One run of a handler on an event ends in one of these ways: the promise it
  returned is fulfilled or rejected (a handler of fewer than three parameters), it calls
  the callback or \<^verbatim>\<open>lambdaContext.done\<close> with an error and a result, or the call
  raises.
\<close>

datatype handler_run =
    Resolves jsval
  | Rejects jsval
  | CallsDone jsval jsval
  | Raises thrown

text \<open>
  Both calling conventions end in \<^verbatim>\<open>lambdaContext.done\<close>, that is in the callback
  given to \<^verbatim>\<open>createLambdaContext\<close>: \<^verbatim>\<open>.then(res => lambdaContext.done(null, res))\<close>
  and \<^verbatim>\<open>.catch(lambdaContext.done)\<close>.
\<close>

fun completion_signal :: "handler_run \<Rightarrow> (jsval \<times> jsval) result" where
  "completion_signal (Resolves res) = Inr (JNull, res)"
| "completion_signal (Rejects e) = Inr (e, JUndefined)"
| "completion_signal (CallsDone err data) = Inr (err, data)"
| "completion_signal (Raises t) = Inl t"

text \<open>
  The bridge for one invocation: creating the handler raises, or gives the handler, which
  is what it does with the event.
\<close>

type_synonym bridge = "(jsval \<Rightarrow> handler_run) result"

text \<open>
  \<^verbatim>\<open>eventHandler (queueEvent, functionName, messages, cb)\<close>. The result is the trace
  and either the arguments with which \<open>cb\<close> is called or what the method raised.
\<close>

definition eventHandler ::
  "plugin \<Rightarrow> bridge \<Rightarrow> jsval \<Rightarrow> string \<Rightarrow> jsval \<Rightarrow> action list \<times> (jsval \<times> jsval) result" where
  "eventHandler this br queueEvent functionName messages =
     (if \<not> truthy messages then ([], Inr (JUndefined, JUndefined))
      else case getQueueName this queueEvent of
        Inl t \<Rightarrow> ([], Inl t)
      | Inr streamName \<Rightarrow>
        (case br of
           Inl t \<Rightarrow> ([Log (Log_invoke streamName functionName)], Inl t)
         | Inr handler \<Rightarrow>
           (case buildEvent queueEvent messages of
              Inl t \<Rightarrow> ([Log (Log_invoke streamName functionName)], Inl t)
            | Inr event \<Rightarrow>
              (case completion_signal (handler event) of
                 Inl t \<Rightarrow>
                   ([Log (Log_invoke streamName functionName), Invoke functionName event], Inl t)
               | Inr cb \<Rightarrow>
                   ([Log (Log_invoke streamName functionName), Invoke functionName event,
                     Log (Log_done (truthy (fst cb)) (snd cb))], Inr cb)))))"

section \<open>The polling loop\<close>

text \<open>
  What the collaborators answer during one iteration of \<^verbatim>\<open>next\<close>: the callback
  arguments of \<^verbatim>\<open>receiveMessage\<close>, the handler bridge, and the callback arguments of
  \<^verbatim>\<open>deleteMessageBatch\<close>.
\<close>

record poll_env =
  receive_reply :: "jsval \<times> jsval"
  handler_bridge :: bridge
  delete_reply :: "jsval \<times> jsval"

text \<open>The argument of \<^verbatim>\<open>receiveMessage\<close>.\<close>

definition receive_params :: "jsval \<Rightarrow> jsval \<Rightarrow> jsval result" where
  "receive_params queueEvent QueueUrl =
     bindE (get_prop queueEvent ''batchSize'') (\<lambda>batchSize.
       Inr (JObj [(''QueueUrl'', QueueUrl),
                  (''MaxNumberOfMessages'', batchSize),
                  (''WaitTimeSeconds'', JNum 1)]))"

text \<open>
  The entry \<^verbatim>\<open>({ MessageId: Id, ReceiptHandle }) => ({ Id, ReceiptHandle })\<close> and the
  argument of \<^verbatim>\<open>deleteMessageBatch\<close>.
\<close>

definition delete_entry :: "jsval \<Rightarrow> jsval result" where
  "delete_entry message =
     bindE (get_prop message ''MessageId'') (\<lambda>Id.
     bindE (get_prop message ''ReceiptHandle'') (\<lambda>ReceiptHandle.
       Inr (JObj [(''Id'', Id), (''ReceiptHandle'', ReceiptHandle)])))"

definition delete_params :: "jsval \<Rightarrow> jsval \<Rightarrow> jsval result" where
  "delete_params Messages QueueUrl =
     (case (if truthy Messages then Messages else JArr []) of
        JArr ms \<Rightarrow>
          bindE (mapE delete_entry ms) (\<lambda>entries.
            Inr (JObj [(''Entries'', JArr entries), (''QueueUrl'', QueueUrl)]))
      | _ \<Rightarrow> Inl TypeError)"

text \<open>
  The body of \<^verbatim>\<open>next\<close> after the receive call has been issued, up to the recursive
  call: \<open>Inr ()\<close> when the body reaches \<^verbatim>\<open>next()\<close>, \<open>Inl t\<close> when an
  \<^verbatim>\<open>await\<close> raises \<open>t\<close>, which rejects the promise of \<^verbatim>\<open>next\<close> and ends the
  loop. The callback given to \<^verbatim>\<open>deleteMessageBatch\<close> is \<^verbatim>\<open>() => cb()\<close>: it
  drops the reply.
\<close>

definition after_receive ::
  "plugin \<Rightarrow> jsval \<Rightarrow> string \<Rightarrow> jsval \<Rightarrow> poll_env \<Rightarrow> action list \<times> unit result" where
  "after_receive this queueEvent functionName QueueUrl env =
     (case bindE (fromCallback (receive_reply env)) (\<lambda>data. get_prop data ''Messages'') of
        Inl t \<Rightarrow> ([], Inl t)
      | Inr Messages \<Rightarrow>
          if truthy Messages then
            (case eventHandler this (handler_bridge env) queueEvent functionName Messages of
               (acts, r) \<Rightarrow>
                 (case bindE r fromCallback of
                    Inl t \<Rightarrow> (acts, Inl t)
                  | Inr res \<Rightarrow>
                      (case delete_params Messages QueueUrl of
                         Inl t \<Rightarrow> (acts, Inl t)
                       | Inr params \<Rightarrow> (acts @ [DeleteMessageBatch params], Inr ()))))
          else ([], Inr ()))"

text \<open>
  The loop \<^verbatim>\<open>next\<close> runs for as long as the collaborators answer. It is run here
  against the answers of finitely many iterations: when they are used up the loop is
  \<open>Polling\<close>, with a receive call issued and not yet answered; \<open>Stopped t\<close> says that
  the promise of \<^verbatim>\<open>next\<close> was rejected with \<open>t\<close>, after which nothing calls
  \<^verbatim>\<open>next\<close> again.
\<close>

datatype poller_status = Polling | Stopped thrown

fun next_loop ::
  "plugin \<Rightarrow> jsval \<Rightarrow> string \<Rightarrow> jsval \<Rightarrow> poll_env list \<Rightarrow> action list \<times> poller_status" where
  "next_loop this queueEvent functionName QueueUrl [] =
     (case receive_params queueEvent QueueUrl of
        Inl t \<Rightarrow> ([], Stopped t)
      | Inr params \<Rightarrow> ([ReceiveMessage params], Polling))"
| "next_loop this queueEvent functionName QueueUrl (env # envs) =
     (case receive_params queueEvent QueueUrl of
        Inl t \<Rightarrow> ([], Stopped t)
      | Inr params \<Rightarrow>
          (case after_receive this queueEvent functionName QueueUrl env of
             (acts, Inl t) \<Rightarrow> (ReceiveMessage params # acts, Stopped t)
           | (acts, Inr u) \<Rightarrow>
               (case next_loop this queueEvent functionName QueueUrl envs of
                  (rest, status) \<Rightarrow> (ReceiveMessage params # acts @ rest, status))))"

text \<open>
  The backend client is configured by \<^verbatim>\<open>getClient\<close>:
  \<^verbatim>\<open>Object.assign({ region: this.options.region || this.service.provider.region ||
  'us-west-2' }, this.config)\<close>. \<^verbatim>\<open>Object.assign\<close> copies the own enumerable
  properties of its source in order; a source that has none changes nothing.
\<close>

definition own_entries :: "jsval \<Rightarrow> (string \<times> jsval) list" where
  "own_entries v =
     (case v of
        JObj kvs \<Rightarrow> kvs
      | JArr xs \<Rightarrow> zip (index_keys (length xs)) xs
      | JStr s \<Rightarrow> zip (index_keys (length s)) (map (\<lambda>c. JStr [c]) s)
      | _ \<Rightarrow> [])"

text \<open>
  The order of the keys of an object: the array indices first (the canonical decimal
  numerals below \<open>2\<^sup>3\<^sup>2 - 1\<close>), in ascending order, then the other keys in the order
  in which they were added. An array or a string as the source of
  \<^verbatim>\<open>Object.assign\<close> brings index keys, which take their place before the key
  \<^verbatim>\<open>region\<close> of the target.
\<close>

definition digit_value :: "char \<Rightarrow> int option" where
  "digit_value c = map_of (zip ''0123456789'' [0, 1, 2, 3, 4, 5, 6, 7, 8, 9]) c"

fun numeral_value :: "int \<Rightarrow> string \<Rightarrow> int option" where
  "numeral_value n [] = Some n"
| "numeral_value n (c # cs) =
     (case digit_value c of None \<Rightarrow> None | Some d \<Rightarrow> numeral_value (10 * n + d) cs)"

definition key_index :: "string \<Rightarrow> int option" where
  "key_index k =
     (case k of
        [] \<Rightarrow> None
      | c # cs \<Rightarrow>
          if c = CHR ''0'' \<and> cs \<noteq> [] then None
          else case numeral_value 0 k of
                 None \<Rightarrow> None
               | Some n \<Rightarrow> if n < 4294967295 then Some n else None)"

definition property_order :: "(string \<times> jsval) list \<Rightarrow> (string \<times> jsval) list" where
  "property_order kvs =
     sort_key (\<lambda>kv. case key_index (fst kv) of None \<Rightarrow> 0 | Some n \<Rightarrow> n)
       (filter (\<lambda>kv. key_index (fst kv) \<noteq> None) kvs)
     @ filter (\<lambda>kv. key_index (fst kv) = None) kvs"

definition Object_assign :: "(string \<times> jsval) list \<Rightarrow> jsval \<Rightarrow> (string \<times> jsval) list" where
  "Object_assign target source =
     property_order (fold (\<lambda>kv acc. set_prop acc (fst kv) (snd kv)) (own_entries source) target)"

definition getClient :: "plugin \<Rightarrow> jsval result" where
  "getClient this =
     bindE (get_prop (options this) ''region'') (\<lambda>optionsRegion.
       if truthy optionsRegion
       then Inr (JObj (Object_assign [(''region'', optionsRegion)] (config this)))
       else
         bindE (get_prop (service this) ''provider'') (\<lambda>provider.
         bindE (get_prop provider ''region'') (\<lambda>providerRegion.
           Inr (JObj (Object_assign
                  [(''region'', if truthy providerRegion then providerRegion else JStr ''us-west-2'')]
                  (config this))))))"

text \<open>
  \<^verbatim>\<open>createQueueReadable (functionName, queueEvent)\<close>, run against the reply to
  \<^verbatim>\<open>getQueueUrl\<close> and the answers of finitely many iterations. A raise before the
  loop rejects the promise of the method itself; nothing then starts the loop.
\<close>

definition createQueueReadable ::
  "plugin \<Rightarrow> string \<Rightarrow> jsval \<Rightarrow> jsval \<times> jsval \<Rightarrow> poll_env list \<Rightarrow> action list \<times> poller_status" where
  "createQueueReadable this functionName queueEvent url_reply envs =
     (case bindE (getClient this) (\<lambda>client. getQueueName this queueEvent) of
        Inl t \<Rightarrow> ([], Stopped t)
      | Inr queueName \<Rightarrow>
          (case bindE (fromCallback url_reply) (\<lambda>data. get_prop data ''QueueUrl'') of
             Inl t \<Rightarrow>
               ([Log (Log_text (js_toString queueName)),
                 GetQueueUrl (JObj [(''QueueName'', queueName)])], Stopped t)
           | Inr QueueUrl \<Rightarrow>
               (case next_loop this queueEvent functionName QueueUrl envs of
                  (rest, status) \<Rightarrow>
                    (Log (Log_text (js_toString queueName)) #
                     GetQueueUrl (JObj [(''QueueName'', queueName)]) # rest, status))))"

section \<open>Provisioning\<close>

subsection \<open>\<^verbatim>\<open>JSON.stringify\<close>\<close>

definition hex_digit :: "nat \<Rightarrow> char" where
  "hex_digit d = (if d < 10 then digit_char d else ''abcdef'' ! (d - 10))"

text \<open>
  A string in JSON text: the quotation mark, the backslash and the control characters
  are escaped.
\<close>

definition json_escape :: "char \<Rightarrow> string" where
  "json_escape c =
     (let n = (of_char c :: nat) in
      if n = 0x22 then [CHR 0x5C, CHR 0x22]
      else if n = 0x5C then [CHR 0x5C, CHR 0x5C]
      else if n = 0x08 then [CHR 0x5C, CHR ''b'']
      else if n = 0x0C then [CHR 0x5C, CHR ''f'']
      else if n = 0x0A then [CHR 0x5C, CHR ''n'']
      else if n = 0x0D then [CHR 0x5C, CHR ''r'']
      else if n = 0x09 then [CHR 0x5C, CHR ''t'']
      else if n < 0x20 then
        [CHR 0x5C, CHR ''u'', CHR ''0'', CHR ''0'', hex_digit (n div 16), hex_digit (n mod 16)]
      else [c])"

definition json_quote :: "string \<Rightarrow> string" where
  "json_quote s = CHR 0x22 # concat (map json_escape s) @ [CHR 0x22]"

text \<open>
  The JSON text of a value, \<open>None\<close> where \<^verbatim>\<open>JSON.stringify\<close> gives
  \<^verbatim>\<open>undefined\<close>: an \<^verbatim>\<open>undefined\<close> element of an array is written
  \<^verbatim>\<open>null\<close>, a property whose value is \<^verbatim>\<open>undefined\<close> is left out.
\<close>

fun json_text :: "jsval \<Rightarrow> string option"
  and json_elems :: "jsval list \<Rightarrow> string list"
  and json_members :: "(string \<times> jsval) list \<Rightarrow> string list" where
  "json_text JUndefined = None"
| "json_text JNull = Some ''null''"
| "json_text (JBool b) = Some (if b then ''true'' else ''false'')"
| "json_text (JNum n) = Some (num_toString n)"
| "json_text (JStr s) = Some (json_quote s)"
| "json_text (JArr xs) = Some (''['' @ join_with '','' (json_elems xs) @ '']'')"
| "json_text (JObj kvs) = Some (''{'' @ join_with '','' (json_members kvs) @ ''}'')"
| "json_elems [] = []"
| "json_elems (x # xs) = (case json_text x of None \<Rightarrow> ''null'' | Some t \<Rightarrow> t) # json_elems xs"
| "json_members [] = []"
| "json_members (kv # kvs) =
     (case json_text (snd kv) of
        None \<Rightarrow> json_members kvs
      | Some t \<Rightarrow> (json_quote (fst kv) @ '':'' @ t) # json_members kvs)"

definition JSON_stringify :: "jsval \<Rightarrow> jsval" where
  "JSON_stringify v = (case json_text v of None \<Rightarrow> JUndefined | Some t \<Rightarrow> JStr t)"

subsection \<open>\<^verbatim>\<open>createInitialQueue\<close>\<close>

text \<open>
  The value stored for one entry of a nested attribute: a string or a number as a string,
  and for anything else \<^verbatim>\<open>queue[attribute][attr]['Fn::GetAtt'][0]\<close>.
\<close>

definition nested_leaf :: "jsval \<Rightarrow> jsval result" where
  "nested_leaf leaf =
     (case leaf of
        JStr s \<Rightarrow> Inr (JStr s)
      | JNum n \<Rightarrow> Inr (JStr (num_toString n))
      | _ \<Rightarrow> bindE (get_prop leaf ''Fn::GetAtt'') (\<lambda>getAtt. get_prop getAtt ''0''))"

text \<open>
  The inner \<^verbatim>\<open>forEach\<close> over \<^verbatim>\<open>Object.keys(queue[attribute])\<close>; \<open>acc\<close> is
  the object \<^verbatim>\<open>params.Attributes[attribute]\<close> being filled.
\<close>

fun nested_loop ::
  "jsval \<Rightarrow> string list \<Rightarrow> (string \<times> jsval) list \<Rightarrow> (string \<times> jsval) list result" where
  "nested_loop nested [] acc = Inr acc"
| "nested_loop nested (attr # attrs) acc =
     bindE (get_prop nested attr) (\<lambda>leaf.
     bindE (nested_leaf leaf) (\<lambda>v.
       nested_loop nested attrs (set_prop acc attr v)))"

text \<open>
  The outer \<^verbatim>\<open>forEach\<close> over \<^verbatim>\<open>Object.keys(queue)\<close>; \<open>acc\<close> is
  \<^verbatim>\<open>params.Attributes\<close>.
\<close>

fun attributes_loop ::
  "jsval \<Rightarrow> string list \<Rightarrow> (string \<times> jsval) list \<Rightarrow> (string \<times> jsval) list result" where
  "attributes_loop queue [] acc = Inr acc"
| "attributes_loop queue (attribute # attributes) acc =
     (if attribute \<noteq> ''QueueName'' then
        bindE (get_prop queue attribute) (\<lambda>v.
          case v of
            JStr s \<Rightarrow> attributes_loop queue attributes (set_prop acc attribute (JStr s))
          | JNum n \<Rightarrow>
              attributes_loop queue attributes (set_prop acc attribute (JStr (num_toString n)))
          | _ \<Rightarrow>
              bindE (Object_keys v) (\<lambda>attrs.
              bindE (nested_loop v attrs []) (\<lambda>inner.
                attributes_loop queue attributes
                  (set_prop (set_prop acc attribute (JObj [])) attribute
                     (JSON_stringify (JObj inner))))))
      else attributes_loop queue attributes acc)"

text \<open>The argument \<^verbatim>\<open>params\<close> of \<^verbatim>\<open>client.createQueue\<close>.\<close>

definition createQueue_params :: "jsval \<Rightarrow> jsval result" where
  "createQueue_params queue =
     bindE (get_prop queue ''QueueName'') (\<lambda>QueueName.
     bindE (Object_keys queue) (\<lambda>attributes.
     bindE (attributes_loop queue attributes []) (\<lambda>Attributes.
       Inr (JObj [(''QueueName'', QueueName), (''Attributes'', JObj Attributes)]))))"

text \<open>
  The backend's answer to \<^verbatim>\<open>client.createQueue(params).promise()\<close>: the call raises,
  or it returns a promise, which is fulfilled with the reply or rejected with the
  failure.
\<close>

datatype createQueue_answer =
    Call_raises thrown
  | Promise_of "jsval result"

text \<open>
  \<^verbatim>\<open>async createInitialQueue (queue)\<close>: the trace and the settled state of the promise
  it returns. \<^verbatim>\<open>try { return client.createQueue(params).promise() } catch (error)
  { console.log(error) }\<close> returns the promise of the client without awaiting it. The
  \<^verbatim>\<open>catch\<close> clause therefore runs only when the call itself raises, and the method
  then returns \<^verbatim>\<open>undefined\<close>; the promise of an \<^verbatim>\<open>async\<close> function that
  returns a promise settles as that promise does.
\<close>

definition createInitialQueue ::
  "plugin \<Rightarrow> (jsval \<Rightarrow> createQueue_answer) \<Rightarrow> jsval \<Rightarrow> action list \<times> jsval result" where
  "createInitialQueue this client_createQueue queue =
     (case bindE (getClient this) (\<lambda>client. createQueue_params queue) of
        Inl t \<Rightarrow> ([], Inl t)
      | Inr params \<Rightarrow>
          (case client_createQueue params of
             Call_raises error \<Rightarrow> ([CreateQueue params, Log (Console_error error)], Inr JUndefined)
           | Promise_of settled \<Rightarrow> ([CreateQueue params], settled)))"

section \<open>Bootstrap\<close>

text \<open>
  The \<^verbatim>\<open>forEach\<close> of \<^verbatim>\<open>offlineStartInit\<close> over
  \<^verbatim>\<open>Object.keys(this.service.resources.Resources)\<close>: the log lines, the
  \<^verbatim>\<open>Properties\<close> of the resources of type \<^verbatim>\<open>AWS::SQS::Queue\<close>, for each of
  which \<^verbatim>\<open>createInitialQueue\<close> is called, and what the loop raised, if it did
  (reading \<^verbatim>\<open>.Type\<close> of a resource that is \<^verbatim>\<open>null\<close>).
\<close>

fun collect_queues :: "jsval \<Rightarrow> string list \<Rightarrow> action list \<times> jsval list \<times> thrown option" where
  "collect_queues Resources [] = ([], [], None)"
| "collect_queues Resources (resourceName # resourceNames) =
     (case bindE (get_prop Resources resourceName) (\<lambda>resource. get_prop resource ''Type'') of
        Inl t \<Rightarrow> ([], [], Some t)
      | Inr ty \<Rightarrow>
          if ty = JStr ''AWS::SQS::Queue'' then
            (case collect_queues Resources resourceNames of
               (logs, queues, raised) \<Rightarrow>
                 (Log (Log_text (''Creating Queue '' @ resourceName)) # logs,
                  prop_of (prop_of Resources resourceName) ''Properties'' # queues,
                  raised))
          else collect_queues Resources resourceNames)"

text \<open>
  \<^verbatim>\<open>await Promise.all(promises)\<close> raises the reason of the first of the promises to
  be rejected, and does not wait for the others. A provisioning call that raises before it
  reaches the backend is rejected before any reply of the backend arrives; the replies of
  the backend are taken in the order of the calls.
\<close>

fun first_rejection :: "'a result list \<Rightarrow> thrown option" where
  "first_rejection [] = None"
| "first_rejection (Inl t # rs) = Some t"
| "first_rejection (Inr v # rs) = first_rejection rs"

definition Promise_all_rejection ::
  "plugin \<Rightarrow> jsval list \<Rightarrow> jsval result list \<Rightarrow> thrown option" where
  "Promise_all_rejection this queues settled =
     (case first_rejection (map (\<lambda>queue. bindE (getClient this) (\<lambda>client. createQueue_params queue)) queues) of
        Some t \<Rightarrow> Some t
      | None \<Rightarrow> first_rejection settled)"

text \<open>
  The triggers of one function:
  \<^verbatim>\<open>pipe(get('events'), filter(has('sqs')), map(get('sqs')))(_function)\<close>. lodash's
  \<^verbatim>\<open>get\<close> reads \<^verbatim>\<open>undefined\<close> from \<^verbatim>\<open>undefined\<close> and \<^verbatim>\<open>null\<close>;
  \<^verbatim>\<open>filter\<close> runs over the elements of an array or a string and over the values of
  an object; \<^verbatim>\<open>has\<close> asks for an own property.
\<close>

definition collection_values :: "jsval \<Rightarrow> jsval list" where
  "collection_values v = map snd (own_entries v)"

definition has_sqs :: "jsval \<Rightarrow> bool" where
  "has_sqs v = (case v of JObj kvs \<Rightarrow> ''sqs'' \<in> set (map fst kvs) | _ \<Rightarrow> False)"

definition function_queues :: "jsval \<Rightarrow> jsval list" where
  "function_queues fn =
     map (\<lambda>event. prop_of event ''sqs'') (filter has_sqs (collection_values (prop_of fn ''events'')))"

text \<open>
  The body of the \<^verbatim>\<open>mapValues\<close> callback for one function. The call
  \<^verbatim>\<open>this.createQueueReadable(functionName, queueEvent)\<close> is recorded as
  \<open>StartPoller\<close>; its promise is not awaited.
\<close>

definition start_function :: "string \<times> jsval \<Rightarrow> action list" where
  "start_function entry =
     (let queues = function_queues (snd entry) in
      (if queues \<noteq> [] then [Log Console_blank, Log (Log_text (''SQS for '' @ fst entry @ '':''))]
       else []) @
      map (StartPoller (fst entry)) queues @
      (if queues \<noteq> [] then [Log Console_blank] else []))"

definition start_pollers :: "plugin \<Rightarrow> action list \<times> unit result" where
  "start_pollers this =
     (case get_prop (service this) ''functions'' of
        Inl t \<Rightarrow> ([Log (Log_text ''Starting Offline Kinesis.'')], Inl t)
      | Inr functions \<Rightarrow>
          (Log (Log_text ''Starting Offline Kinesis.'') #
           concat (map start_function (own_entries functions)), Inr ()))"

text \<open>
  \<^verbatim>\<open>async offlineStartInit ()\<close>: the trace and whether the promise of the hook is
  fulfilled or rejected.
\<close>

definition offlineStartInit ::
  "plugin \<Rightarrow> (jsval \<Rightarrow> createQueue_answer) \<Rightarrow> action list \<times> unit result" where
  "offlineStartInit this client_createQueue =
     (if truthy (service this) \<and> truthy (prop_of (service this) ''resources'')
         \<and> truthy (prop_of (prop_of (service this) ''resources'') ''Resources'')
      then
        (let Resources = prop_of (prop_of (service this) ''resources'') ''Resources'' in
         case collect_queues Resources (case Object_keys Resources of Inl t \<Rightarrow> [] | Inr ks \<Rightarrow> ks) of
           (logs, queues, raised) \<Rightarrow>
             (let runs = map (createInitialQueue this client_createQueue) queues;
                  acts = Log (Log_text ''Creating Offline SQS Queues.'') # logs @ concat (map fst runs)
              in case raised of
                   Some t \<Rightarrow> (acts, Inl t)
                 | None \<Rightarrow>
                     (case Promise_all_rejection this queues (map snd runs) of
                        Some t \<Rightarrow> (acts, Inl t)
                      | None \<Rightarrow>
                          (case start_pollers this of
                             (started, r) \<Rightarrow> (acts @ Log Console_blank # started, r)))))
      else
        (case start_pollers this of
           (started, r) \<Rightarrow> (Log (Log_text ''Creating Offline SQS Queues.'') # started, r)))"

section \<open>Vocabulary of the properties\<close>

text \<open>\<^verbatim>\<open>undefined\<close> and \<^verbatim>\<open>null\<close>, the two values without properties.\<close>

definition nullish :: "jsval \<Rightarrow> bool" where
  "nullish v = (v = JUndefined \<or> v = JNull)"

fun is_receive :: "action \<Rightarrow> bool" where
  "is_receive (ReceiveMessage p) = True"
| "is_receive a = False"

fun is_delete :: "action \<Rightarrow> bool" where
  "is_delete (DeleteMessageBatch p) = True"
| "is_delete a = False"

text \<open>
  The record that \<^verbatim>\<open>eventHandler\<close> builds for a message and the entry that
  \<^verbatim>\<open>next\<close> builds for it, written with \<open>prop_of\<close> for a message and a trigger
  whose properties can be read.
\<close>

definition event_record :: "jsval \<Rightarrow> jsval \<Rightarrow> jsval" where
  "event_record queueEvent message =
     JObj [(''messageId'', prop_of message ''MessageId''),
           (''receiptHandle'', prop_of message ''ReceiptHandle''),
           (''body'', prop_of message ''Body''),
           (''attributes'', prop_of message ''Attributes''),
           (''messageAttributes'', prop_of message ''MessageAttributes''),
           (''md5OfBody'', prop_of message ''MD5OfBody''),
           (''eventSource'', JStr ''aws:sqs''),
           (''eventSourceARN'', prop_of queueEvent ''arn''),
           (''awsRegion'', JStr ''us-west-2'')]"

definition delete_entry_of :: "jsval \<Rightarrow> jsval" where
  "delete_entry_of message =
     JObj [(''Id'', prop_of message ''MessageId''),
           (''ReceiptHandle'', prop_of message ''ReceiptHandle'')]"

text \<open>
  An iteration in which every call other than the delete call succeeds: the receive call
  reports no error and gives a reply, and if the reply holds a truthy \<^verbatim>\<open>Messages\<close>,
  the bridge gives a handler, the event can be built, and the completion signal reports no
  error. Nothing is asked of the reply to the delete call.
\<close>

definition calls_succeed :: "plugin \<Rightarrow> jsval \<Rightarrow> poll_env \<Rightarrow> bool" where
  "calls_succeed this queueEvent env =
     (\<not> truthy (fst (receive_reply env)) \<and> \<not> nullish (snd (receive_reply env)) \<and>
      (truthy (prop_of (snd (receive_reply env)) ''Messages'') \<longrightarrow>
         (case handler_bridge env of
            Inl t \<Rightarrow> False
          | Inr handler \<Rightarrow>
              (case buildEvent queueEvent (prop_of (snd (receive_reply env)) ''Messages'') of
                 Inl t \<Rightarrow> False
               | Inr event \<Rightarrow>
                   (case completion_signal (handler event) of
                      Inl t \<Rightarrow> False
                    | Inr cb \<Rightarrow> \<not> truthy (fst cb))))))"

text \<open>
  The queue resource definitions of the data model: the definition is an object, and each
  of its attributes other than \<^verbatim>\<open>QueueName\<close> is a string, a number, or a nested
  mapping whose leaves are strings, numbers and cross-resource references
  \<^verbatim>\<open>{'Fn::GetAtt': [resourceName, attribute]}\<close>. Its objects have distinct keys
  and its numbers are integers that JavaScript represents exactly.
\<close>

definition is_reference :: "jsval \<Rightarrow> bool" where
  "is_reference leaf =
     (case leaf of
        JObj kvs \<Rightarrow>
          (case map_of kvs ''Fn::GetAtt'' of
             Some (JArr (JStr resourceName # rest)) \<Rightarrow> True
           | _ \<Rightarrow> False)
      | _ \<Rightarrow> False)"

definition is_leaf :: "jsval \<Rightarrow> bool" where
  "is_leaf leaf =
     (case leaf of
        JStr s \<Rightarrow> True
      | JNum n \<Rightarrow> safe_integer n
      | _ \<Rightarrow> is_reference leaf)"

definition is_attribute_value :: "jsval \<Rightarrow> bool" where
  "is_attribute_value v =
     (case v of
        JStr s \<Rightarrow> True
      | JNum n \<Rightarrow> safe_integer n
      | JObj nested \<Rightarrow> distinct (map fst nested) \<and> list_all (\<lambda>kv. is_leaf (snd kv)) nested
      | _ \<Rightarrow> False)"

definition is_queue_definition :: "jsval \<Rightarrow> bool" where
  "is_queue_definition queue =
     (case queue of
        JObj kvs \<Rightarrow>
          distinct (map fst kvs)
          \<and> list_all (\<lambda>kv. fst kv = ''QueueName'' \<or> is_attribute_value (snd kv)) kvs
      | _ \<Rightarrow> False)"

text \<open>
  The attribute map as the specification words it: a string or numeric leaf is
  stringified; in a nested mapping the string and numeric leaves are stringified and a
  reference leaf is replaced by element 0 of the reference, and the resolved mapping is
  serialized to one JSON string; the \<^verbatim>\<open>QueueName\<close> key is skipped.
\<close>

definition spec_leaf :: "jsval \<Rightarrow> jsval" where
  "spec_leaf leaf =
     (case leaf of
        JStr s \<Rightarrow> JStr s
      | JNum n \<Rightarrow> JStr (num_toString n)
      | _ \<Rightarrow>
          (case prop_of leaf ''Fn::GetAtt'' of
             JArr (resourceName # rest) \<Rightarrow> resourceName
           | _ \<Rightarrow> JUndefined))"

definition spec_attribute :: "jsval \<Rightarrow> jsval" where
  "spec_attribute v =
     (case v of
        JStr s \<Rightarrow> JStr s
      | JNum n \<Rightarrow> JStr (num_toString n)
      | JObj nested \<Rightarrow> JSON_stringify (JObj (map (\<lambda>kv. (fst kv, spec_leaf (snd kv))) nested))
      | _ \<Rightarrow> JUndefined)"

definition spec_attributes :: "(string \<times> jsval) list \<Rightarrow> (string \<times> jsval) list" where
  "spec_attributes kvs =
     map (\<lambda>kv. (fst kv, spec_attribute (snd kv))) (filter (\<lambda>kv. fst kv \<noteq> ''QueueName'') kvs)"

section \<open>Examples\<close>

text \<open>
  A manifest with a provider and one queue resource, and a plugin instance on it.
\<close>

definition example_manifest :: jsval where
  "example_manifest =
     JObj [(''provider'', JObj [(''name'', JStr ''aws''), (''region'', JStr ''us-east-1'')]),
           (''resources'', JObj [(''Resources'', JObj
       [(''MyQueue'', JObj [(''Type'', JStr ''AWS::SQS::Queue''),
                            (''Properties'', JObj [(''QueueName'', JStr ''orders'')])])])])]"

definition example_plugin :: plugin where
  "example_plugin = new_plugin example_manifest (JObj [])"

text \<open>
  A trigger, a queue URL and a message, two handlers, and the answers of three kinds of
  iteration: one message is received (and the delete call then fails), nothing is
  received, and an empty \<^verbatim>\<open>Messages\<close> array is received.
\<close>

definition example_trigger :: jsval where
  "example_trigger =
     JObj [(''arn'', JStr ''arn:aws:sqs:us-west-2:000000000000:orders''), (''batchSize'', JNum 10)]"

definition example_url :: jsval where
  "example_url = JStr ''http://localhost:9324/queue/orders''"

definition example_message :: jsval where
  "example_message =
     JObj [(''MessageId'', JStr ''m-1''), (''ReceiptHandle'', JStr ''rh-1''),
           (''Body'', JStr ''hello''), (''Attributes'', JObj []),
           (''MessageAttributes'', JObj []), (''MD5OfBody'', JStr ''5d41402abc4b2a76b9719d911017c592'')]"

definition succeeding_handler :: "jsval \<Rightarrow> handler_run" where
  "succeeding_handler event = Resolves (JStr ''done'')"

definition failing_handler :: "jsval \<Rightarrow> handler_run" where
  "failing_handler event = Rejects (JStr ''handler failed'')"

definition example_env :: "(jsval \<Rightarrow> handler_run) \<Rightarrow> poll_env" where
  "example_env handler =
     \<lparr> receive_reply = (JNull, JObj [(''Messages'', JArr [example_message])]),
       handler_bridge = Inr handler,
       delete_reply = (JStr ''delete failed'', JUndefined) \<rparr>"

definition idle_env :: poll_env where
  "idle_env =
     \<lparr> receive_reply = (JNull, JObj []),
       handler_bridge = Inr succeeding_handler,
       delete_reply = (JNull, JObj []) \<rparr>"

definition empty_batch_env :: poll_env where
  "empty_batch_env =
     \<lparr> receive_reply = (JNull, JObj [(''Messages'', JArr [])]),
       handler_bridge = Inr succeeding_handler,
       delete_reply = (JNull, JObj []) \<rparr>"

definition example_event :: jsval where
  "example_event = JObj [(''Records'', JArr [event_record example_trigger example_message])]"

definition example_receive :: action where
  "example_receive =
     ReceiveMessage (JObj [(''QueueUrl'', example_url), (''MaxNumberOfMessages'', JNum 10),
                           (''WaitTimeSeconds'', JNum 1)])"

definition example_delete :: action where
  "example_delete =
     DeleteMessageBatch
       (JObj [(''Entries'', JArr [JObj [(''Id'', JStr ''m-1''), (''ReceiptHandle'', JStr ''rh-1'')]]),
              (''QueueUrl'', example_url)])"

text \<open>
  Further examples: the queue definition of the specification, a second message, a trigger
  with a literal queue name, two triggers that are plain strings, the reply to
  \<^verbatim>\<open>getQueueUrl\<close>, a plugin instance whose options name a region, and a manifest
  with three queue resources and one function, with backends that accept every
  create-queue call, that reject the one for queue \<^verbatim>\<open>B\<close> through the promise, and
  that raise on it.
\<close>

definition example_queue :: jsval where
  "example_queue =
     JObj [(''QueueName'', JStr ''Q''),
           (''VisibilityTimeout'', JNum 30),
           (''RedrivePolicy'', JObj [(''maxReceiveCount'', JNum 5),
              (''deadLetterTargetArn'', JObj [(''Fn::GetAtt'', JArr [JStr ''DLQ'', JStr ''Arn''])])])]"

definition second_message :: jsval where
  "second_message =
     JObj [(''MessageId'', JStr ''m-2''), (''ReceiptHandle'', JStr ''rh-2''),
           (''Body'', JStr ''world'')]"

definition literal_trigger :: jsval where
  "literal_trigger = JObj [(''queueName'', JStr ''orders''), (''batchSize'', JNum 10)]"

definition regional_plugin :: plugin where
  "regional_plugin = new_plugin example_manifest (JObj [(''region'', JStr ''eu-central-1'')])"

definition second_record :: "jsval \<Rightarrow> jsval" where
  "second_record arn =
     JObj [(''messageId'', JStr ''m-2''), (''receiptHandle'', JStr ''rh-2''),
           (''body'', JStr ''world''), (''attributes'', JUndefined),
           (''messageAttributes'', JUndefined), (''md5OfBody'', JUndefined),
           (''eventSource'', JStr ''aws:sqs''), (''eventSourceARN'', arn),
           (''awsRegion'', JStr ''us-west-2'')]"

definition queue_resource :: "string \<Rightarrow> jsval" where
  "queue_resource name =
     JObj [(''Type'', JStr ''AWS::SQS::Queue''),
           (''Properties'', JObj [(''QueueName'', JStr name)])]"

definition bootstrap_manifest :: jsval where
  "bootstrap_manifest =
     JObj [(''provider'', JObj [(''region'', JStr ''eu-central-1'')]),
           (''resources'', JObj [(''Resources'', JObj
              [(''First'', queue_resource ''A''),
               (''Second'', queue_resource ''B''),
               (''Third'', queue_resource ''C'')])]),
           (''functions'', JObj
              [(''consumer'', JObj [(''handler'', JStr ''handler.consume''),
                 (''events'', JArr [JObj [(''sqs'', JObj [(''queueName'', JStr ''A'')])]])])])]"

definition bootstrap_plugin :: plugin where
  "bootstrap_plugin = new_plugin bootstrap_manifest (JObj [])"

definition accepting_backend :: "jsval \<Rightarrow> createQueue_answer" where
  "accepting_backend params = Promise_of (Inr (JObj [(''QueueUrl'', JStr ''http://localhost:9324/queue'')]))"

definition rejecting_backend :: "jsval \<Rightarrow> createQueue_answer" where
  "rejecting_backend params =
     (if prop_of params ''QueueName'' = JStr ''B''
      then Promise_of (Inl (Reason (JStr ''connect ECONNREFUSED'')))
      else Promise_of (Inr (JObj [(''QueueUrl'', JStr ''http://localhost:9324/queue'')])))"

definition raising_backend :: "jsval \<Rightarrow> createQueue_answer" where
  "raising_backend params =
     (if prop_of params ''QueueName'' = JStr ''B''
      then Call_raises (Reason (JStr ''connect ECONNREFUSED''))
      else Promise_of (Inr (JObj [(''QueueUrl'', JStr ''http://localhost:9324/queue'')])))"

definition example_url_reply :: "jsval \<times> jsval" where
  "example_url_reply = (JNull, JObj [(''QueueUrl'', example_url)])"

definition string_trigger :: jsval where
  "string_trigger = JStr ''arn:aws:sqs:us-west-2:000000000000:orders''"

definition other_string_trigger :: jsval where
  "other_string_trigger = JStr ''arn:aws:sqs:us-west-2:000000000000:invoices''"

definition create_call :: "string \<Rightarrow> action" where
  "create_call name = CreateQueue (JObj [(''QueueName'', JStr name), (''Attributes'', JObj [])])"

section \<open>Reading properties\<close>

lemma prop_of_JObj:
  "prop_of (JObj kvs) k = (case map_of kvs k of None \<Rightarrow> JUndefined | Some v \<Rightarrow> v)"
  by (simp add: prop_of_def split: option.splits)

lemma get_prop_JObj: "get_prop (JObj kvs) k = Inr (prop_of (JObj kvs) k)"
  by (simp add: prop_of_def split: option.splits)

lemma get_prop_defined: "\<not> nullish v \<Longrightarrow> get_prop v k = Inr (prop_of v k)"
  by (cases v) (simp_all add: prop_of_def nullish_def split: option.splits)

lemma get_prop_Inr_defined: "get_prop v k = Inr x \<Longrightarrow> \<not> nullish v"
  by (cases v) (simp_all add: nullish_def)

lemma mapE_Inr: "(\<And>x. x \<in> set xs \<Longrightarrow> f x = Inr (g x)) \<Longrightarrow> mapE f xs = Inr (map g xs)"
  by (induction xs) (simp_all add: bindE_def)

lemma mapE_Inr_each: "mapE f xs = Inr ys \<Longrightarrow> x \<in> set xs \<Longrightarrow> \<exists>y. f x = Inr y"
  by (induction xs arbitrary: ys) (auto simp: bindE_def split: sum.splits)

section \<open>Properties of the queue name resolution\<close>

text \<open>
  \<open>split_colon\<close> is the split at the colons: no field holds a colon, and the fields
  joined by colons give the string back.
\<close>

lemma split_colon_nonempty: "split_colon s \<noteq> []"
  by (induction s) (auto split: list.splits)

lemma join_split_colon: "join_with '':'' (split_colon s) = s"
proof (induction s)
  case Nil
  then show ?case by simp
next
  case (Cons c cs)
  obtain f fs where fs: "split_colon cs = f # fs"
    using split_colon_nonempty [of cs] by (cases "split_colon cs") auto
  show ?case
  proof (cases "c = CHR '':''")
    case True
    with Cons fs show ?thesis by simp
  next
    case False
    with Cons fs show ?thesis by (cases fs) auto
  qed
qed

lemma split_colon_no_colon: "f \<in> set (split_colon s) \<Longrightarrow> CHR '':'' \<notin> set f"
  by (induction s arbitrary: f) (auto split: list.splits if_splits)

text \<open>The branches of \<^verbatim>\<open>getQueueName\<close> on a trigger that is an object.\<close>

lemma getQueueName_object:
  "getQueueName this (JObj kvs) =
     (case prop_of (JObj kvs) ''arn'' of
        JStr arn \<Rightarrow> Inr (extractQueueNameFromARN arn)
      | arn \<Rightarrow>
          if is_string (prop_of (JObj kvs) ''queueName'') then Inr (prop_of (JObj kvs) ''queueName'')
          else
            bindE (get_prop arn ''Fn::GetAtt'') (\<lambda>getAtt.
              if truthy getAtt then
                bindE (destructure_first getAtt) (\<lambda>ResourceName.
                  case catalog_QueueName (service this) ResourceName of
                    Some name \<Rightarrow> Inr name
                  | None \<Rightarrow> Inl (Error ''QueueName not found''))
              else Inl (Error ''QueueName not found'')))"
  by (simp add: getQueueName_def get_prop_JObj bindE_def del: get_prop.simps split: jsval.splits)

lemma catalog_QueueName_found:
  assumes "srv = JObj s"
    and "map_of s ''resources'' = Some (JObj rs)"
    and "map_of rs ''Resources'' = Some (JObj catalog)"
    and "map_of catalog resourceName = Some (JObj resource)"
    and "map_of resource ''Properties'' = Some (JObj props)"
    and "map_of props ''QueueName'' = Some (JStr q)"
  shows "catalog_QueueName srv (JStr resourceName) = Some (JStr q)"
  using assms by (simp add: catalog_QueueName_def prop_of_JObj)

lemma getQueueName_indirect:
  assumes "map_of kvs ''arn'' = Some (JObj ref)"
    and "map_of ref ''Fn::GetAtt'' = Some (JArr (JStr resourceName # rest))"
    and "\<not> is_string (prop_of (JObj kvs) ''queueName'')"
    and "catalog_QueueName (service this) (JStr resourceName) = Some (JStr q)"
  shows "getQueueName this (JObj kvs) = Inr (JStr q)"
proof -
  have arn: "prop_of (JObj kvs) ''arn'' = JObj ref"
    using assms(1) by (simp add: prop_of_JObj)
  have att: "get_prop (JObj ref) ''Fn::GetAtt'' = Inr (JArr (JStr resourceName # rest))"
    using assms(2) by simp
  show ?thesis
    unfolding getQueueName_object arn
    using assms(3,4) by (simp add: att bindE_def del: get_prop.simps)
qed

text \<open>
  C5, as the code has it. A trigger object whose \<^verbatim>\<open>queueName\<close> field is a string
  resolves to that string verbatim whenever its \<^verbatim>\<open>arn\<close> field is not a string. The
  literal name is not the first check: \<^verbatim>\<open>getQueueName\<close> tests
  \<^verbatim>\<open>typeof queueEvent.arn === 'string'\<close> before it, so on an object that carries both
  a string \<^verbatim>\<open>arn\<close> and a string \<^verbatim>\<open>queueName\<close> the sixth field of the
  \<^verbatim>\<open>arn\<close> is returned.
\<close>

theorem getQueueName_literal:
  "map_of kvs ''queueName'' = Some (JStr q) \<Longrightarrow>
   getQueueName this (JObj kvs) =
     (case map_of kvs ''arn'' of
        Some (JStr arn) \<Rightarrow> Inr (extractQueueNameFromARN arn)
      | _ \<Rightarrow> Inr (JStr q))"
  by (simp add: getQueueName_def bindE_def split: option.splits jsval.splits)

theorem getQueueName_literal_witness:
  "map_of [(''queueName'', JStr ''orders''), (''batchSize'', JNum 10)] ''queueName''
     = Some (JStr ''orders'')
   \<and> getQueueName example_plugin
        (JObj [(''queueName'', JStr ''orders''), (''batchSize'', JNum 10)]) = Inr (JStr ''orders'')"
  using getQueueName_literal
    [of "[(''queueName'', JStr ''orders''), (''batchSize'', JNum 10)]" "''orders''" example_plugin]
  by simp

text \<open>
  C5, as the claim states it, fails: the trigger below carries a string
  \<^verbatim>\<open>queueName\<close> and a string \<^verbatim>\<open>arn\<close>, and the name taken from the
  \<^verbatim>\<open>arn\<close> is returned, not the literal one.
\<close>

theorem getQueueName_literal_counterexample:
  "getQueueName example_plugin
     (JObj [(''queueName'', JStr ''literal''),
            (''arn'', JStr ''arn:aws:sqs:us-west-2:000000000000:FromArn'')]) = Inr (JStr ''FromArn'')
   \<and> getQueueName example_plugin
     (JObj [(''queueName'', JStr ''literal''),
            (''arn'', JStr ''arn:aws:sqs:us-west-2:000000000000:FromArn'')]) \<noteq> Inr (JStr ''literal'')"
  by (simp add: getQueueName_def bindE_def extractQueueNameFromARN_def)

text \<open>
  C6. A trigger that is a plain colon-delimited string resolves to the sixth
  colon-delimited field of the string, and so does every trigger object whose
  \<^verbatim>\<open>arn\<close> field is such a string (\<^verbatim>\<open>undefined\<close> when the string has fewer
  than six fields). A trigger object of the reference shape, whose \<^verbatim>\<open>arn\<close> is the
  reference \<^verbatim>\<open>{'Fn::GetAtt': [resourceName, ...]}\<close> to a catalog resource with a
  string \<^verbatim>\<open>QueueName\<close> property, resolves to that property. (An object that
  carries a string \<^verbatim>\<open>queueName\<close> is of the literal shape, which is resolved
  before the reference is looked at.)
\<close>

theorem getQueueName_arn:
  "getQueueName this (JStr arn) =
     Inr (if 5 < length (split_colon arn) then JStr (split_colon arn ! 5) else JUndefined)
   \<and> (map_of kvs ''arn'' = Some (JStr arn) \<longrightarrow>
        getQueueName this (JObj kvs) =
          Inr (if 5 < length (split_colon arn) then JStr (split_colon arn ! 5) else JUndefined))
   \<and> (map_of kvs' ''arn'' = Some (JObj ref)
        \<and> map_of ref ''Fn::GetAtt'' = Some (JArr (JStr resourceName # rest))
        \<and> \<not> is_string (prop_of (JObj kvs') ''queueName'')
        \<and> service this = JObj srv
        \<and> map_of srv ''resources'' = Some (JObj rs)
        \<and> map_of rs ''Resources'' = Some (JObj catalog)
        \<and> map_of catalog resourceName = Some (JObj resource)
        \<and> map_of resource ''Properties'' = Some (JObj props)
        \<and> map_of props ''QueueName'' = Some (JStr q) \<longrightarrow>
        getQueueName this (JObj kvs') = Inr (JStr q))"
proof (intro conjI impI)
  show "getQueueName this (JStr arn) =
     Inr (if 5 < length (split_colon arn) then JStr (split_colon arn ! 5) else JUndefined)"
    by (simp add: getQueueName_def extractQueueNameFromARN_def)
next
  assume "map_of kvs ''arn'' = Some (JStr arn)"
  then show "getQueueName this (JObj kvs) =
          Inr (if 5 < length (split_colon arn) then JStr (split_colon arn ! 5) else JUndefined)"
    by (simp add: getQueueName_object prop_of_JObj extractQueueNameFromARN_def)
next
  assume h: "map_of kvs' ''arn'' = Some (JObj ref)
        \<and> map_of ref ''Fn::GetAtt'' = Some (JArr (JStr resourceName # rest))
        \<and> \<not> is_string (prop_of (JObj kvs') ''queueName'')
        \<and> service this = JObj srv
        \<and> map_of srv ''resources'' = Some (JObj rs)
        \<and> map_of rs ''Resources'' = Some (JObj catalog)
        \<and> map_of catalog resourceName = Some (JObj resource)
        \<and> map_of resource ''Properties'' = Some (JObj props)
        \<and> map_of props ''QueueName'' = Some (JStr q)"
  then have "catalog_QueueName (service this) (JStr resourceName) = Some (JStr q)"
    by (intro catalog_QueueName_found [where s = srv and rs = rs and catalog = catalog
          and resource = resource and props = props]) simp_all
  with h show "getQueueName this (JObj kvs') = Inr (JStr q)"
    by (intro getQueueName_indirect [where ref = ref and rest = rest
          and resourceName = resourceName]) simp_all
qed

theorem getQueueName_arn_witness:
  "getQueueName example_plugin (JStr ''arn:aws:sqs:us-west-2:000000000000:orders'')
     = Inr (JStr ''orders'')
   \<and> getQueueName example_plugin
       (JObj [(''arn'', JStr ''arn:aws:sqs:us-west-2:000000000000:orders'')]) = Inr (JStr ''orders'')
   \<and> getQueueName example_plugin
       (JObj [(''arn'', JObj [(''Fn::GetAtt'', JArr [JStr ''MyQueue'', JStr ''Arn''])])])
     = Inr (JStr ''orders'')"
  using getQueueName_arn [where this = example_plugin
      and arn = "''arn:aws:sqs:us-west-2:000000000000:orders''"
      and kvs = "[(''arn'', JStr ''arn:aws:sqs:us-west-2:000000000000:orders'')]"
      and kvs' = "[(''arn'', JObj [(''Fn::GetAtt'', JArr [JStr ''MyQueue'', JStr ''Arn''])])]"
      and ref = "[(''Fn::GetAtt'', JArr [JStr ''MyQueue'', JStr ''Arn''])]"
      and resourceName = "''MyQueue''" and rest = "[JStr ''Arn'']"
      and srv = "[(''provider'', JObj [(''name'', JStr ''aws''), (''region'', JStr ''us-east-1'')]),
        (''resources'', JObj [(''Resources'', JObj
        [(''MyQueue'', JObj [(''Type'', JStr ''AWS::SQS::Queue''),
                             (''Properties'', JObj [(''QueueName'', JStr ''orders'')])])])])]"
      and rs = "[(''Resources'', JObj
        [(''MyQueue'', JObj [(''Type'', JStr ''AWS::SQS::Queue''),
                             (''Properties'', JObj [(''QueueName'', JStr ''orders'')])])])]"
      and catalog = "[(''MyQueue'', JObj [(''Type'', JStr ''AWS::SQS::Queue''),
                             (''Properties'', JObj [(''QueueName'', JStr ''orders'')])])]"
      and resource = "[(''Type'', JStr ''AWS::SQS::Queue''),
                             (''Properties'', JObj [(''QueueName'', JStr ''orders'')])]"
      and props = "[(''QueueName'', JStr ''orders'')]" and q = "''orders''"]
  by (simp add: example_plugin_def new_plugin_def example_manifest_def prop_of_JObj)

text \<open>
  C7, as the code has it. A trigger object that has an \<^verbatim>\<open>arn\<close> which is neither a
  string nor \<^verbatim>\<open>undefined\<close> nor \<^verbatim>\<open>null\<close>, that has no string
  \<^verbatim>\<open>queueName\<close>, and whose \<^verbatim>\<open>arn\<close> is no reference that resolves (its
  \<^verbatim>\<open>Fn::GetAtt\<close> is falsy, or names through its first element nothing in the catalog
  with a string \<^verbatim>\<open>QueueName\<close>) fails with the \<^verbatim>\<open>Error\<close> whose message is the
  constant text \<^verbatim>\<open>QueueName not found\<close>; the error says nothing about the trigger.
\<close>

theorem getQueueName_not_found:
  "map_of kvs ''arn'' = Some arn \<Longrightarrow> \<not> nullish arn \<Longrightarrow> \<not> is_string arn \<Longrightarrow>
   \<not> is_string (prop_of (JObj kvs) ''queueName'') \<Longrightarrow>
   \<not> truthy (prop_of arn ''Fn::GetAtt'')
     \<or> (\<exists>r. destructure_first (prop_of arn ''Fn::GetAtt'') = Inr r
             \<and> catalog_QueueName (service this) r = None) \<Longrightarrow>
   getQueueName this (JObj kvs) = Inl (Error ''QueueName not found'')"
proof -
  assume arn: "map_of kvs ''arn'' = Some arn" "\<not> nullish arn" "\<not> is_string arn"
    and name: "\<not> is_string (prop_of (JObj kvs) ''queueName'')"
    and unresolved: "\<not> truthy (prop_of arn ''Fn::GetAtt'')
     \<or> (\<exists>r. destructure_first (prop_of arn ''Fn::GetAtt'') = Inr r
             \<and> catalog_QueueName (service this) r = None)"
  have "prop_of (JObj kvs) ''arn'' = arn"
    using arn(1) by (simp add: prop_of_JObj)
  moreover have "get_prop arn ''Fn::GetAtt'' = Inr (prop_of arn ''Fn::GetAtt'')"
    using arn(2) by (rule get_prop_defined)
  ultimately have "getQueueName this (JObj kvs) =
      (if truthy (prop_of arn ''Fn::GetAtt'') then
         bindE (destructure_first (prop_of arn ''Fn::GetAtt'')) (\<lambda>ResourceName.
           case catalog_QueueName (service this) ResourceName of
             Some name \<Rightarrow> Inr name
           | None \<Rightarrow> Inl (Error ''QueueName not found''))
       else Inl (Error ''QueueName not found''))"
    using arn(3) name
    by (cases arn) (simp_all add: getQueueName_object bindE_def del: get_prop.simps)
  with unresolved show ?thesis
    by (auto simp: bindE_def)
qed

theorem getQueueName_not_found_witness:
  "map_of [(''arn'', JObj [(''Fn::GetAtt'', JArr [JStr ''Missing'', JStr ''Arn''])])] ''arn''
     = Some (JObj [(''Fn::GetAtt'', JArr [JStr ''Missing'', JStr ''Arn''])])
   \<and> catalog_QueueName (service example_plugin) (JStr ''Missing'') = None
   \<and> getQueueName example_plugin
       (JObj [(''arn'', JObj [(''Fn::GetAtt'', JArr [JStr ''Missing'', JStr ''Arn''])])])
     = Inl (Error ''QueueName not found'')"
  using getQueueName_not_found [where this = example_plugin
      and kvs = "[(''arn'', JObj [(''Fn::GetAtt'', JArr [JStr ''Missing'', JStr ''Arn''])])]"
      and arn = "JObj [(''Fn::GetAtt'', JArr [JStr ''Missing'', JStr ''Arn''])]"]
  by (simp add: prop_of_JObj example_plugin_def new_plugin_def example_manifest_def
      catalog_QueueName_def nullish_def)

text \<open>
  C7, as the claim states it, fails twice. A trigger object that matches none of the four
  shapes because it has no \<^verbatim>\<open>arn\<close> and no \<^verbatim>\<open>queueName\<close> does not fail with
  \<^verbatim>\<open>QueueName not found\<close>: \<^verbatim>\<open>queueEvent.arn['Fn::GetAtt']\<close> reads a property
  of \<^verbatim>\<open>undefined\<close>, which raises a \<^verbatim>\<open>TypeError\<close>. And two different
  unresolvable triggers fail with the same error, which therefore identifies neither.
\<close>

theorem getQueueName_not_found_counterexample:
  "getQueueName example_plugin (JObj [(''batchSize'', JNum 10)]) = Inl TypeError
   \<and> getQueueName example_plugin (JObj [(''arn'', JObj [])])
       = Inl (Error ''QueueName not found'')
   \<and> getQueueName example_plugin (JObj [(''arn'', JObj []), (''batchSize'', JNum 10)])
       = Inl (Error ''QueueName not found'')"
  by (simp add: getQueueName_object prop_of_JObj bindE_def)

section \<open>Properties of the event and of the polling loop\<close>

lemma record_of_defined:
  "\<not> nullish q \<Longrightarrow> \<not> nullish m \<Longrightarrow> record_of q m = Inr (event_record q m)"
  by (simp add: record_of_def event_record_def get_prop_defined bindE_def del: get_prop.simps)

lemma record_of_Inr: "record_of q m = Inr r \<Longrightarrow> \<not> nullish m \<and> \<not> nullish q"
  unfolding record_of_def bindE_def
  by (auto split: sum.splits dest: get_prop_Inr_defined simp del: get_prop.simps)

lemma buildEvent_defined:
  assumes "\<not> nullish q" and "\<And>m. m \<in> set ms \<Longrightarrow> \<not> nullish m"
  shows "buildEvent q (JArr ms) = Inr (JObj [(''Records'', JArr (map (event_record q) ms))])"
proof -
  have "mapE (record_of q) ms = Inr (map (event_record q) ms)"
    using assms by (intro mapE_Inr record_of_defined)
  then show ?thesis by (simp add: buildEvent_def bindE_def)
qed

lemma buildEvent_Inr:
  assumes "buildEvent q msgs = Inr event"
  shows "\<exists>ms. msgs = JArr ms \<and> (\<forall>m\<in>set ms. \<not> nullish m)
           \<and> event = JObj [(''Records'', JArr (map (event_record q) ms))]"
proof (cases msgs)
  case (JArr ms)
  from assms JArr obtain rs where rs: "mapE (record_of q) ms = Inr rs"
    by (auto simp: buildEvent_def bindE_def split: sum.splits)
  have ms: "\<not> nullish m \<and> \<not> nullish q" if "m \<in> set ms" for m
    using mapE_Inr_each [OF rs that] record_of_Inr by blast
  then have "mapE (record_of q) ms = Inr (map (event_record q) ms)"
    by (intro mapE_Inr record_of_defined) auto
  with assms JArr ms show ?thesis
    by (auto simp: buildEvent_def bindE_def)
qed (use assms in \<open>simp_all add: buildEvent_def\<close>)

lemma delete_params_defined:
  assumes "\<And>m. m \<in> set ms \<Longrightarrow> \<not> nullish m"
  shows "delete_params (JArr ms) url =
           Inr (JObj [(''Entries'', JArr (map delete_entry_of ms)), (''QueueUrl'', url)])"
proof -
  have "mapE delete_entry ms = Inr (map delete_entry_of ms)"
    using assms
    by (intro mapE_Inr)
      (simp add: delete_entry_def delete_entry_of_def get_prop_defined bindE_def del: get_prop.simps)
  then show ?thesis by (simp add: delete_params_def bindE_def)
qed

lemma after_receive_completed:
  assumes "getQueueName this q = Inr name"
    and "\<not> truthy (fst (receive_reply env))"
    and "get_prop (snd (receive_reply env)) ''Messages'' = Inr (JArr ms)"
    and "handler_bridge env = Inr handler"
    and "buildEvent q (JArr ms) = Inr event"
    and "completion_signal (handler event) = Inr (err, data)"
  shows "after_receive this q fn url env =
           (if truthy err
            then ([Log (Log_invoke name fn), Invoke fn event, Log (Log_done True data)],
                  Inl (Reason err))
            else ([Log (Log_invoke name fn), Invoke fn event, Log (Log_done False data),
                   DeleteMessageBatch
                     (JObj [(''Entries'', JArr (map delete_entry_of ms)), (''QueueUrl'', url)])],
                  Inr ()))"
proof -
  from buildEvent_Inr [OF assms(5)] have ms: "\<And>m. m \<in> set ms \<Longrightarrow> \<not> nullish m"
    by auto
  have del: "delete_params (JArr ms) url =
           Inr (JObj [(''Entries'', JArr (map delete_entry_of ms)), (''QueueUrl'', url)])"
    using ms by (rule delete_params_defined)
  have eh: "eventHandler this (handler_bridge env) q fn (JArr ms) =
      ([Log (Log_invoke name fn), Invoke fn event, Log (Log_done (truthy err) data)], Inr (err, data))"
    using assms(1,4,5,6) by (simp add: eventHandler_def)
  show ?thesis
    using assms(2,3) del eh
    by (simp add: after_receive_def fromCallback_def bindE_def del: get_prop.simps)
qed

lemma after_receive_empty:
  assumes "\<not> truthy (fst (receive_reply env))"
    and "get_prop (snd (receive_reply env)) ''Messages'' = Inr Messages"
    and "\<not> truthy Messages"
  shows "after_receive this q fn url env = ([], Inr ())"
  using assms by (simp add: after_receive_def fromCallback_def bindE_def del: get_prop.simps)

lemma getQueueName_defined: "getQueueName this q = Inr name \<Longrightarrow> \<not> nullish q"
  by (cases q) (simp_all add: getQueueName_def bindE_def nullish_def)

lemma receive_params_defined:
  "\<not> nullish q \<Longrightarrow>
   receive_params q url =
     Inr (JObj [(''QueueUrl'', url), (''MaxNumberOfMessages'', prop_of q ''batchSize''),
                (''WaitTimeSeconds'', JNum 1)])"
  by (simp add: receive_params_def get_prop_defined bindE_def del: get_prop.simps)

lemma next_loop_starts:
  "receive_params q url = Inr params \<Longrightarrow>
   \<exists>rest. fst (next_loop this q fn url envs) = ReceiveMessage params # rest"
  by (cases envs) (auto split: prod.splits sum.splits)

lemma next_loop_continue:
  "receive_params q url = Inr params \<Longrightarrow> after_receive this q fn url env = (acts, Inr ()) \<Longrightarrow>
   next_loop this q fn url (env # envs) =
     (ReceiveMessage params # acts @ fst (next_loop this q fn url envs),
      snd (next_loop this q fn url envs))"
  by (simp split: prod.splits)

lemma next_loop_stop:
  "receive_params q url = Inr params \<Longrightarrow> after_receive this q fn url env = (acts, Inl t) \<Longrightarrow>
   next_loop this q fn url (env # envs) = (ReceiveMessage params # acts, Stopped t)"
  by simp

lemma calls_succeed_continues:
  assumes "getQueueName this q = Inr name" and "calls_succeed this q env"
  shows "\<exists>acts. after_receive this q fn url env = (acts, Inr ()) \<and> filter is_receive acts = []"
proof -
  let ?data = "snd (receive_reply env)"
  let ?Messages = "prop_of ?data ''Messages''"
  from assms(2) have ok: "\<not> truthy (fst (receive_reply env))" and data: "\<not> nullish ?data"
    by (simp_all add: calls_succeed_def)
  from data have get: "get_prop ?data ''Messages'' = Inr ?Messages"
    by (rule get_prop_defined)
  show ?thesis
  proof (cases "truthy ?Messages")
    case False
    with ok get show ?thesis by (simp add: after_receive_empty)
  next
    case True
    with assms(2) obtain handler event err d where
      h: "handler_bridge env = Inr handler"
      and ev: "buildEvent q ?Messages = Inr event"
      and sig: "completion_signal (handler event) = Inr (err, d)"
      and err: "\<not> truthy err"
      by (auto simp: calls_succeed_def split: sum.splits)
    from buildEvent_Inr [OF ev] obtain ms where ms: "?Messages = JArr ms" by blast
    have "after_receive this q fn url env =
            ([Log (Log_invoke name fn), Invoke fn event, Log (Log_done False d),
              DeleteMessageBatch
                (JObj [(''Entries'', JArr (map delete_entry_of ms)), (''QueueUrl'', url)])],
             Inr ())"
      using after_receive_completed [OF assms(1) ok _ h _ sig, of ms fn url] get ev ms err
      by simp
    then show ?thesis by simp
  qed
qed

lemma example_getQueueName: "getQueueName example_plugin example_trigger = Inr (JStr ''orders'')"
  by (simp add: getQueueName_object prop_of_JObj example_trigger_def extractQueueNameFromARN_def)

lemma example_buildEvent: "buildEvent example_trigger (JArr [example_message]) = Inr example_event"
  using buildEvent_defined [of example_trigger "[example_message]"]
  by (simp add: example_event_def nullish_def example_trigger_def example_message_def)

lemma example_env_replies:
  "\<not> truthy (fst (receive_reply (example_env handler)))"
  "get_prop (snd (receive_reply (example_env handler))) ''Messages'' = Inr (JArr [example_message])"
  "handler_bridge (example_env handler) = Inr handler"
  by (simp_all add: example_env_def)

lemma example_signals:
  "completion_signal (succeeding_handler event) = Inr (JNull, JStr ''done'')"
  "completion_signal (failing_handler event) = Inr (JStr ''handler failed'', JUndefined)"
  by (simp_all add: succeeding_handler_def failing_handler_def)

lemma example_after_receive_failing:
  "after_receive example_plugin example_trigger ''handler'' example_url (example_env failing_handler)
     = ([Log (Log_invoke (JStr ''orders'') ''handler''), Invoke ''handler'' example_event,
         Log (Log_done True JUndefined)], Inl (Reason (JStr ''handler failed'')))"
  using after_receive_completed [OF example_getQueueName example_env_replies example_buildEvent
      example_signals(2), of "''handler''" example_url]
  by simp

lemma example_receive_params:
  "receive_params example_trigger example_url =
     Inr (JObj [(''QueueUrl'', example_url), (''MaxNumberOfMessages'', JNum 10),
                (''WaitTimeSeconds'', JNum 1)])"
  by (simp add: receive_params_def bindE_def example_trigger_def)

text \<open>
  C1, as the code has it. In an iteration of a started poller in which the receive call
  returns an array of messages (of any length) and the handler is invoked on the event
  built from it: when the completion signal reports no error, the trace of the iteration is
  the invocation, the log line of the completion signal, and then exactly one
  \<^verbatim>\<open>deleteMessageBatch\<close> call, whose \<^verbatim>\<open>Entries\<close> hold one
  \<^verbatim>\<open>{Id, ReceiptHandle}\<close> entry for every received message, in order; when the
  completion signal reports an error, \<^verbatim>\<open>fromCallback\<close> rejects, no delete call is
  issued, and the promise of \<^verbatim>\<open>next\<close> is rejected with that error.
\<close>

theorem delete_after_completion:
  assumes "getQueueName this q = Inr name"
    and "\<not> truthy (fst (receive_reply env))"
    and "get_prop (snd (receive_reply env)) ''Messages'' = Inr (JArr ms)"
    and "handler_bridge env = Inr handler"
    and "buildEvent q (JArr ms) = Inr event"
    and "completion_signal (handler event) = Inr (err, data)"
  shows "after_receive this q fn url env =
           (if truthy err
            then ([Log (Log_invoke name fn), Invoke fn event, Log (Log_done True data)],
                  Inl (Reason err))
            else ([Log (Log_invoke name fn), Invoke fn event, Log (Log_done False data),
                   DeleteMessageBatch
                     (JObj [(''Entries'', JArr (map delete_entry_of ms)), (''QueueUrl'', url)])],
                  Inr ()))"
  using assms by (rule after_receive_completed)

theorem delete_after_completion_witness:
  "after_receive example_plugin example_trigger ''handler'' example_url (example_env succeeding_handler)
     = ([Log (Log_invoke (JStr ''orders'') ''handler''), Invoke ''handler'' example_event,
         Log (Log_done False (JStr ''done'')), example_delete], Inr ())"
  using delete_after_completion [OF example_getQueueName example_env_replies example_buildEvent
      example_signals(1), of "''handler''" example_url]
  by (simp add: example_delete_def delete_entry_of_def example_message_def prop_of_JObj)

text \<open>
  C1, as the claim states it, fails: one message is received and the handler's promise is
  rejected; the completion signal fires with the error, and the iteration ends without a
  delete call.
\<close>

theorem delete_after_completion_counterexample:
  "after_receive example_plugin example_trigger ''handler'' example_url (example_env failing_handler)
     = ([Log (Log_invoke (JStr ''orders'') ''handler''), Invoke ''handler'' example_event,
         Log (Log_done True JUndefined)], Inl (Reason (JStr ''handler failed'')))
   \<and> filter is_delete
        (fst (after_receive example_plugin example_trigger ''handler'' example_url
               (example_env failing_handler))) = []"
  by (simp add: example_after_receive_failing)

text \<open>
  On a poller whose trigger resolves, the loop goes on after every iteration in which
  the receive call succeeded and the invocation, if there was one, reported success,
  whatever the delete call reported: run against the answers of \<open>n\<close> such iterations
  the loop has issued \<open>n + 1\<close> receive calls and is waiting for the answer to the
  last.
\<close>

lemma next_loop_after_success:
  assumes "getQueueName this q = Inr name"
    and "\<forall>env\<in>set envs. calls_succeed this q env"
  shows "snd (next_loop this q fn url envs) = Polling
         \<and> length (filter is_receive (fst (next_loop this q fn url envs))) = Suc (length envs)"
  using assms(2)
proof (induction envs)
  case Nil
  from assms(1) have "\<not> nullish q" by (rule getQueueName_defined)
  then show ?case by (simp add: receive_params_defined)
next
  case (Cons env envs)
  from assms(1) have q: "\<not> nullish q" by (rule getQueueName_defined)
  from Cons.prems have "calls_succeed this q env" by simp
  from calls_succeed_continues [OF assms(1) this, of fn url]
  obtain acts where acts: "after_receive this q fn url env = (acts, Inr ())"
    and none: "filter is_receive acts = []" by blast
  from Cons have IH: "snd (next_loop this q fn url envs) = Polling"
    "length (filter is_receive (fst (next_loop this q fn url envs))) = Suc (length envs)"
    by simp_all
  show ?case
    using none IH
    by (simp add: next_loop_continue [OF receive_params_defined [OF q] acts] del: next_loop.simps)
qed

text \<open>
  C2 against the code, on a started poller whose first iteration receives one message
  and whose handler's promise is rejected. The completion signal reports the error,
  \<^verbatim>\<open>fromCallback\<close> rejects, and the \<^verbatim>\<open>await\<close> in \<^verbatim>\<open>next\<close>
  raises: the promise of \<^verbatim>\<open>next\<close> is rejected, nothing awaits or catches it, and
  \<^verbatim>\<open>next()\<close> is not reached. The loop has ended after one receive call, with the
  answers of a further iteration at hand. The other failure of an iteration is treated
  as the loop is meant to go: the callback \<^verbatim>\<open>() => cb()\<close> of the delete call
  drops its error, and in the second run, where the delete call fails, the loop polls on.
\<close>

theorem handler_error_ends_polling:
  "createQueueReadable example_plugin ''handler'' example_trigger example_url_reply
     [example_env failing_handler, example_env succeeding_handler]
     = ([Log (Log_text ''orders''), GetQueueUrl (JObj [(''QueueName'', JStr ''orders'')]),
         example_receive, Log (Log_invoke (JStr ''orders'') ''handler''),
         Invoke ''handler'' example_event, Log (Log_done True JUndefined)],
        Stopped (Reason (JStr ''handler failed'')))
   \<and> createQueueReadable example_plugin ''handler'' example_trigger example_url_reply
     [example_env succeeding_handler, idle_env]
     = ([Log (Log_text ''orders''), GetQueueUrl (JObj [(''QueueName'', JStr ''orders'')]),
         example_receive, Log (Log_invoke (JStr ''orders'') ''handler''),
         Invoke ''handler'' example_event, Log (Log_done False (JStr ''done'')), example_delete,
         example_receive, example_receive],
        Polling)
   \<and> fst (delete_reply (example_env succeeding_handler)) = JStr ''delete failed''"
  by code_simp

text \<open>
  C3, as the code has it. In an iteration in which the receive call succeeds and the
  \<^verbatim>\<open>Messages\<close> field of its reply is absent (or any other falsy value), the handler
  is not invoked and no delete call is issued: the iteration leaves no trace, and the next
  action of the loop is the next receive call. \<^verbatim>\<open>eventHandler\<close> itself, given falsy
  messages, calls back at once without any effect.
\<close>

theorem no_messages_no_invocation:
  "\<not> truthy (fst (receive_reply env)) \<Longrightarrow>
   get_prop (snd (receive_reply env)) ''Messages'' = Inr Messages \<Longrightarrow> \<not> truthy Messages \<Longrightarrow>
   receive_params q url = Inr params \<Longrightarrow>
   eventHandler this (handler_bridge env) q fn Messages = ([], Inr (JUndefined, JUndefined))
   \<and> after_receive this q fn url env = ([], Inr ())
   \<and> (\<exists>rest. fst (next_loop this q fn url (env # envs))
                = ReceiveMessage params # ReceiveMessage params # rest)"
proof (intro conjI)
  assume a: "\<not> truthy (fst (receive_reply env))"
    "get_prop (snd (receive_reply env)) ''Messages'' = Inr Messages" "\<not> truthy Messages"
    and p: "receive_params q url = Inr params"
  show "eventHandler this (handler_bridge env) q fn Messages = ([], Inr (JUndefined, JUndefined))"
    using a(3) by (simp add: eventHandler_def)
  show ar: "after_receive this q fn url env = ([], Inr ())"
    using a by (rule after_receive_empty)
  from next_loop_starts [OF p, of this fn envs]
  obtain rest where "fst (next_loop this q fn url envs) = ReceiveMessage params # rest" by blast
  then show "\<exists>rest. fst (next_loop this q fn url (env # envs))
                = ReceiveMessage params # ReceiveMessage params # rest"
    by (simp add: next_loop_continue [OF p ar] del: next_loop.simps)
qed

theorem no_messages_no_invocation_witness:
  "after_receive example_plugin example_trigger ''handler'' example_url idle_env = ([], Inr ())
   \<and> (\<exists>rest. fst (next_loop example_plugin example_trigger ''handler'' example_url [idle_env])
                = example_receive # example_receive # rest)"
  using no_messages_no_invocation [of idle_env JUndefined example_trigger example_url _
      example_plugin "''handler''" "[]", OF _ _ _ example_receive_params]
  by (simp add: idle_env_def example_receive_def del: next_loop.simps)

text \<open>
  C3, as the claim states it, fails for the empty sequence: an empty array is truthy, so
  \<^verbatim>\<open>if (Messages)\<close> and \<^verbatim>\<open>if (!messages) return cb()\<close> let it pass; the
  handler is invoked on an event without records and a delete call without entries is
  issued.
\<close>

theorem no_messages_no_invocation_counterexample:
  "after_receive example_plugin example_trigger ''handler'' example_url empty_batch_env
     = ([Log (Log_invoke (JStr ''orders'') ''handler''),
         Invoke ''handler'' (JObj [(''Records'', JArr [])]),
         Log (Log_done False (JStr ''done'')),
         DeleteMessageBatch (JObj [(''Entries'', JArr []), (''QueueUrl'', example_url)])], Inr ())"
  using after_receive_completed [OF example_getQueueName, of empty_batch_env "[]" succeeding_handler
      "JObj [(''Records'', JArr [])]" JNull "JStr ''done''" "''handler''" example_url]
  by (simp add: empty_batch_env_def buildEvent_def bindE_def succeeding_handler_def)

section \<open>Properties of the invocation event\<close>

text \<open>An index key is a string of digits, so \<^verbatim>\<open>arn\<close> is no index of a string.\<close>

lemma digit_char_digit: "digit_char d \<in> set ''0123456789''"
  by (simp add: digit_char_def)

lemma nat_toString_digits: "set (nat_toString n) \<subseteq> set ''0123456789''"
proof (induction n rule: nat_toString.induct)
  case (1 n)
  show ?case
  proof (cases "n < 10")
    case True
    then show ?thesis
      using digit_char_digit [of n] by (subst nat_toString.simps) simp
  next
    case False
    with 1 have "set (nat_toString (n div 10)) \<subseteq> set ''0123456789''" by simp
    with False show ?thesis
      using digit_char_digit [of "n mod 10"] by (subst nat_toString.simps) simp
  qed
qed

lemma index_keys_digits: "k \<in> set (index_keys n) \<Longrightarrow> set k \<subseteq> set ''0123456789''"
  using nat_toString_digits by (auto simp: index_keys_def)

lemma arn_no_index: "''arn'' \<notin> set (index_keys n)"
  using index_keys_digits [of "''arn''" n] by auto

lemma prop_of_string_arn: "prop_of (JStr s) ''arn'' = JUndefined"
proof -
  have "map_of (zip (index_keys (length s)) s) ''arn'' = None"
    using arn_no_index [of "length s"]
    by (subst map_of_zip_is_None) (simp_all add: index_keys_def)
  then show ?thesis by (simp add: prop_of_def)
qed

lemma map_store_reads:
  "map_store q indices store = (mapE (record_of q) (map (nth store) indices), store)"
  by (induction indices) (simp_all add: bindE_def split: sum.splits)

lemma buildEvent_store_reads:
  "buildEvent_store q messages = (buildEvent q (JArr messages), messages)"
  by (simp add: buildEvent_store_def buildEvent_def map_store_reads map_nth)

text \<open>
  C9, as the code has it. For every trigger and every sequence of \<open>N\<close> received
  messages (a trigger and messages whose properties can be read, that is, none of them
  \<^verbatim>\<open>undefined\<close> or \<^verbatim>\<open>null\<close>), \<^verbatim>\<open>eventHandler\<close> builds an event
  with exactly \<open>N\<close> records in the order of the messages. Record \<open>i\<close> carries the
  id, the receipt handle, the body, the attributes, the message attributes and the
  checksum of message \<open>i\<close>, the constant event source \<^verbatim>\<open>aws:sqs\<close>, the value of
  the \<^verbatim>\<open>arn\<close> property of the trigger and the region tag. Building the event
  leaves the array of messages as it was.
\<close>

theorem buildEvent_records:
  assumes "\<not> nullish queueEvent" and "\<forall>m\<in>set messages. \<not> nullish m"
  shows "(\<exists>records.
           buildEvent queueEvent (JArr messages) = Inr (JObj [(''Records'', JArr records)])
           \<and> length records = length messages
           \<and> (\<forall>i<length messages.
                 records ! i =
                   JObj [(''messageId'', prop_of (messages ! i) ''MessageId''),
                         (''receiptHandle'', prop_of (messages ! i) ''ReceiptHandle''),
                         (''body'', prop_of (messages ! i) ''Body''),
                         (''attributes'', prop_of (messages ! i) ''Attributes''),
                         (''messageAttributes'', prop_of (messages ! i) ''MessageAttributes''),
                         (''md5OfBody'', prop_of (messages ! i) ''MD5OfBody''),
                         (''eventSource'', JStr ''aws:sqs''),
                         (''eventSourceARN'', prop_of queueEvent ''arn''),
                         (''awsRegion'', JStr ''us-west-2'')]))
         \<and> buildEvent_store queueEvent messages
             = (buildEvent queueEvent (JArr messages), messages)"
proof (intro conjI exI)
  show "buildEvent_store queueEvent messages = (buildEvent queueEvent (JArr messages), messages)"
    by (rule buildEvent_store_reads)
  show "buildEvent queueEvent (JArr messages) =
          Inr (JObj [(''Records'', JArr (map (event_record queueEvent) messages))])"
    using assms by (intro buildEvent_defined) auto
  show "length (map (event_record queueEvent) messages) = length messages"
    by simp
  show "\<forall>i<length messages.
          map (event_record queueEvent) messages ! i =
                   JObj [(''messageId'', prop_of (messages ! i) ''MessageId''),
                         (''receiptHandle'', prop_of (messages ! i) ''ReceiptHandle''),
                         (''body'', prop_of (messages ! i) ''Body''),
                         (''attributes'', prop_of (messages ! i) ''Attributes''),
                         (''messageAttributes'', prop_of (messages ! i) ''MessageAttributes''),
                         (''md5OfBody'', prop_of (messages ! i) ''MD5OfBody''),
                         (''eventSource'', JStr ''aws:sqs''),
                         (''eventSourceARN'', prop_of queueEvent ''arn''),
                         (''awsRegion'', JStr ''us-west-2'')]"
    by (simp add: event_record_def)
qed

theorem buildEvent_records_witness:
  "buildEvent example_trigger (JArr [example_message, second_message]) =
     Inr (JObj [(''Records'', JArr
       [JObj [(''messageId'', JStr ''m-1''), (''receiptHandle'', JStr ''rh-1''),
              (''body'', JStr ''hello''), (''attributes'', JObj []),
              (''messageAttributes'', JObj []),
              (''md5OfBody'', JStr ''5d41402abc4b2a76b9719d911017c592''),
              (''eventSource'', JStr ''aws:sqs''),
              (''eventSourceARN'', JStr ''arn:aws:sqs:us-west-2:000000000000:orders''),
              (''awsRegion'', JStr ''us-west-2'')],
        JObj [(''messageId'', JStr ''m-2''), (''receiptHandle'', JStr ''rh-2''),
              (''body'', JStr ''world''), (''attributes'', JUndefined),
              (''messageAttributes'', JUndefined),
              (''md5OfBody'', JUndefined),
              (''eventSource'', JStr ''aws:sqs''),
              (''eventSourceARN'', JStr ''arn:aws:sqs:us-west-2:000000000000:orders''),
              (''awsRegion'', JStr ''us-west-2'')]])])"
proof -
  have "\<not> nullish example_trigger"
    and "\<forall>m\<in>set [example_message, second_message]. \<not> nullish m"
    by (simp_all add: nullish_def example_trigger_def example_message_def second_message_def)
  from buildEvent_records [OF this] obtain records where
    ev: "buildEvent example_trigger (JArr [example_message, second_message])
           = Inr (JObj [(''Records'', JArr records)])"
    and len: "length records = 2"
    and nth: "\<forall>i<2. records ! i =
                   JObj [(''messageId'', prop_of ([example_message, second_message] ! i) ''MessageId''),
                         (''receiptHandle'', prop_of ([example_message, second_message] ! i) ''ReceiptHandle''),
                         (''body'', prop_of ([example_message, second_message] ! i) ''Body''),
                         (''attributes'', prop_of ([example_message, second_message] ! i) ''Attributes''),
                         (''messageAttributes'', prop_of ([example_message, second_message] ! i) ''MessageAttributes''),
                         (''md5OfBody'', prop_of ([example_message, second_message] ! i) ''MD5OfBody''),
                         (''eventSource'', JStr ''aws:sqs''),
                         (''eventSourceARN'', prop_of example_trigger ''arn''),
                         (''awsRegion'', JStr ''us-west-2'')]"
    by auto
  from len obtain r0 r1 where rs: "records = [r0, r1]"
    by (cases records; cases "tl records") auto
  from nth have "records ! 0 = JObj [(''messageId'', prop_of example_message ''MessageId''),
                         (''receiptHandle'', prop_of example_message ''ReceiptHandle''),
                         (''body'', prop_of example_message ''Body''),
                         (''attributes'', prop_of example_message ''Attributes''),
                         (''messageAttributes'', prop_of example_message ''MessageAttributes''),
                         (''md5OfBody'', prop_of example_message ''MD5OfBody''),
                         (''eventSource'', JStr ''aws:sqs''),
                         (''eventSourceARN'', prop_of example_trigger ''arn''),
                         (''awsRegion'', JStr ''us-west-2'')]"
    and "records ! 1 = JObj [(''messageId'', prop_of second_message ''MessageId''),
                         (''receiptHandle'', prop_of second_message ''ReceiptHandle''),
                         (''body'', prop_of second_message ''Body''),
                         (''attributes'', prop_of second_message ''Attributes''),
                         (''messageAttributes'', prop_of second_message ''MessageAttributes''),
                         (''md5OfBody'', prop_of second_message ''MD5OfBody''),
                         (''eventSource'', JStr ''aws:sqs''),
                         (''eventSourceARN'', prop_of example_trigger ''arn''),
                         (''awsRegion'', JStr ''us-west-2'')]"
    by auto
  with rs ev show ?thesis
    by (simp add: prop_of_JObj example_trigger_def example_message_def second_message_def)
qed

text \<open>
  C9, as the claim states it, fails: a record carries the \<^verbatim>\<open>arn\<close> property of
  the trigger, and a trigger that is a plain string or that names its queue by a literal
  \<^verbatim>\<open>queueName\<close> has none. The records built for two different string triggers
  and for a literal trigger are the same, with \<^verbatim>\<open>eventSourceARN\<close>
  \<^verbatim>\<open>undefined\<close>: they carry nothing of the trigger they come from.
\<close>

theorem buildEvent_records_counterexample:
  "buildEvent string_trigger (JArr [second_message])
     = Inr (JObj [(''Records'', JArr [second_record JUndefined])])
   \<and> buildEvent other_string_trigger (JArr [second_message])
     = Inr (JObj [(''Records'', JArr [second_record JUndefined])])
   \<and> string_trigger \<noteq> other_string_trigger
   \<and> buildEvent literal_trigger (JArr [second_message])
     = Inr (JObj [(''Records'', JArr [second_record JUndefined])])"
  by code_simp

lemma getQueueName_service:
  "getQueueName (this\<lparr>options := opts, config := cfg\<rparr>) q = getQueueName this q"
proof -
  have s: "service (this\<lparr>options := opts, config := cfg\<rparr>) = service this"
    by simp
  show ?thesis
    unfolding getQueueName_def s ..
qed

lemma eventHandler_invokes:
  assumes "eventHandler this br queueEvent functionName messages = (acts, r)"
    and "Invoke f event \<in> set acts"
  shows "buildEvent queueEvent messages = Inr event"
  using assms
  by (auto simp: eventHandler_def split: if_splits sum.splits)

text \<open>
  C10. Whatever the plugin instance is, and so whatever region its options, its provider
  or its configuration name, every record of an event on which \<^verbatim>\<open>eventHandler\<close>
  invokes a handler carries the region tag \<^verbatim>\<open>us-west-2\<close>, and its
  \<^verbatim>\<open>eventSourceARN\<close> is the \<^verbatim>\<open>arn\<close> property of the trigger; what
  \<^verbatim>\<open>eventHandler\<close> does is the same under any other options and configuration
  of the plugin. That property
  is \<^verbatim>\<open>undefined\<close> for a trigger that is a plain string and for a trigger object
  without an \<^verbatim>\<open>arn\<close> field, such as one that names its queue by a literal
  \<^verbatim>\<open>queueName\<close>. The configured region reaches \<^verbatim>\<open>getClient\<close> only, as the
  witness shows on a plugin whose options name \<^verbatim>\<open>eu-central-1\<close>.
\<close>

theorem record_region_and_source:
  "(eventHandler this br queueEvent functionName messages = (acts, r)
      \<and> Invoke f event \<in> set acts \<longrightarrow>
      (\<exists>records. event = JObj [(''Records'', JArr records)]
         \<and> (\<forall>record\<in>set records.
               prop_of record ''awsRegion'' = JStr ''us-west-2''
               \<and> prop_of record ''eventSourceARN'' = prop_of queueEvent ''arn'')))
   \<and> eventHandler (this\<lparr>options := opts, config := cfg\<rparr>) br queueEvent functionName messages
       = eventHandler this br queueEvent functionName messages
   \<and> prop_of (JStr arn) ''arn'' = JUndefined
   \<and> (map_of kvs ''arn'' = None \<longrightarrow> prop_of (JObj kvs) ''arn'' = JUndefined)"
proof (intro conjI impI)
  assume "eventHandler this br queueEvent functionName messages = (acts, r)
      \<and> Invoke f event \<in> set acts"
  then have "buildEvent queueEvent messages = Inr event"
    using eventHandler_invokes by blast
  from buildEvent_Inr [OF this] obtain ms where
    "event = JObj [(''Records'', JArr (map (event_record queueEvent) ms))]" by blast
  then show "\<exists>records. event = JObj [(''Records'', JArr records)]
         \<and> (\<forall>record\<in>set records.
               prop_of record ''awsRegion'' = JStr ''us-west-2''
               \<and> prop_of record ''eventSourceARN'' = prop_of queueEvent ''arn'')"
    by (auto simp: event_record_def prop_of_JObj)
next
  show "eventHandler (this\<lparr>options := opts, config := cfg\<rparr>) br queueEvent functionName messages
       = eventHandler this br queueEvent functionName messages"
    unfolding eventHandler_def getQueueName_service ..
next
  show "prop_of (JStr arn) ''arn'' = JUndefined"
    by (rule prop_of_string_arn)
next
  assume "map_of kvs ''arn'' = None"
  then show "prop_of (JObj kvs) ''arn'' = JUndefined"
    by (simp add: prop_of_JObj)
qed

lemma regional_eventHandler:
  "eventHandler regional_plugin (Inr succeeding_handler) literal_trigger ''handler''
       (JArr [second_message])
     = ([Log (Log_invoke (JStr ''orders'') ''handler''),
         Invoke ''handler'' (JObj [(''Records'', JArr [second_record JUndefined])]),
         Log (Log_done False (JStr ''done''))], Inr (JNull, JStr ''done''))"
  by code_simp

theorem record_region_and_source_witness:
  "getClient regional_plugin = Inr (JObj [(''region'', JStr ''eu-central-1'')])
   \<and> eventHandler regional_plugin (Inr succeeding_handler) literal_trigger ''handler''
       (JArr [second_message])
     = ([Log (Log_invoke (JStr ''orders'') ''handler''),
         Invoke ''handler'' (JObj [(''Records'', JArr [second_record JUndefined])]),
         Log (Log_done False (JStr ''done''))], Inr (JNull, JStr ''done''))
   \<and> prop_of (second_record JUndefined) ''awsRegion'' = JStr ''us-west-2''
   \<and> prop_of (second_record JUndefined) ''eventSourceARN'' = prop_of literal_trigger ''arn''
   \<and> prop_of literal_trigger ''arn'' = JUndefined
   \<and> prop_of (JStr ''arn:aws:sqs:us-west-2:000000000000:orders'') ''arn'' = JUndefined"
proof -
  have client: "getClient regional_plugin = Inr (JObj [(''region'', JStr ''eu-central-1'')])"
    by code_simp
  note inst = record_region_and_source [of regional_plugin "Inr succeeding_handler" literal_trigger
      "''handler''" "JArr [second_message]"
      "[Log (Log_invoke (JStr ''orders'') ''handler''),
         Invoke ''handler'' (JObj [(''Records'', JArr [second_record JUndefined])]),
         Log (Log_done False (JStr ''done''))]"
      "Inr (JNull, JStr ''done'')" "''handler''"
      "JObj [(''Records'', JArr [second_record JUndefined])]"
      "JObj []" "JObj []"
      "''arn:aws:sqs:us-west-2:000000000000:orders''"
      "[(''queueName'', JStr ''orders''), (''batchSize'', JNum 10)]"]
  from inst regional_eventHandler
  have "prop_of (second_record JUndefined) ''awsRegion'' = JStr ''us-west-2''
     \<and> prop_of (second_record JUndefined) ''eventSourceARN'' = prop_of literal_trigger ''arn''"
    by simp
  moreover from inst have "prop_of literal_trigger ''arn'' = JUndefined"
    by (simp add: literal_trigger_def)
  moreover from inst
  have "prop_of (JStr ''arn:aws:sqs:us-west-2:000000000000:orders'') ''arn'' = JUndefined"
    by simp
  ultimately show ?thesis
    using client regional_eventHandler by simp
qed

section \<open>Properties of provisioning\<close>

lemma set_prop_fresh: "k \<notin> fst ` set acc \<Longrightarrow> set_prop acc k v = acc @ [(k, v)]"
  by (induction acc) auto

lemma set_prop_last:
  "k \<notin> fst ` set acc \<Longrightarrow> set_prop (acc @ [(k, v)]) k v' = acc @ [(k, v')]"
  by (induction acc) auto

lemma get_prop_member:
  "distinct (map fst kvs) \<Longrightarrow> (k, v) \<in> set kvs \<Longrightarrow> get_prop (JObj kvs) k = Inr v"
  by simp

lemma nat_toString_0: "nat_toString 0 = ''0''"
  by (simp add: nat_toString.simps digit_char_def)

lemma index_keys_0: "index_keys 0 = []"
  by (simp add: index_keys_def)

lemma index_keys_Suc: "index_keys (Suc n) = ''0'' # map nat_toString [1..<Suc n]"
  by (simp add: index_keys_def upt_conv_Cons nat_toString_0 del: upt_Suc)

lemma get_prop_element0:
  "get_prop (JArr xs) ''0'' = Inr (case xs of [] \<Rightarrow> JUndefined | x # xs' \<Rightarrow> x)"
  by (cases xs) (simp_all add: index_keys_0 index_keys_Suc)

lemma nested_leaf_resolved: "is_leaf leaf \<Longrightarrow> nested_leaf leaf = Inr (spec_leaf leaf)"
  by (cases leaf)
    (auto simp: is_leaf_def is_reference_def nested_leaf_def spec_leaf_def bindE_def
      prop_of_JObj get_prop_element0 simp del: get_prop.simps(6)
      split: option.splits jsval.splits list.splits)

lemma nested_loop_resolves:
  assumes "distinct (map fst nested)"
  shows "set xs \<subseteq> set nested \<Longrightarrow> distinct (map fst xs) \<Longrightarrow> \<forall>kv\<in>set xs. is_leaf (snd kv) \<Longrightarrow>
         fst ` set xs \<inter> fst ` set acc = {} \<Longrightarrow>
         nested_loop (JObj nested) (map fst xs) acc =
           Inr (acc @ map (\<lambda>kv. (fst kv, spec_leaf (snd kv))) xs)"
proof (induction xs arbitrary: acc)
  case Nil
  then show ?case by simp
next
  case (Cons kv xs)
  obtain k leaf where kv: "kv = (k, leaf)" by (cases kv)
  from Cons.prems kv have get: "get_prop (JObj nested) k = Inr leaf"
    using assms by (intro get_prop_member) auto
  from Cons.prems kv have leaf: "nested_leaf leaf = Inr (spec_leaf leaf)"
    by (intro nested_leaf_resolved) simp
  from Cons.prems kv have fresh: "set_prop acc k (spec_leaf leaf) = acc @ [(k, spec_leaf leaf)]"
    by (intro set_prop_fresh) auto
  have "nested_loop (JObj nested) (map fst xs) (acc @ [(k, spec_leaf leaf)]) =
          Inr ((acc @ [(k, spec_leaf leaf)]) @ map (\<lambda>kv. (fst kv, spec_leaf (snd kv))) xs)"
    using Cons.prems kv by (intro Cons.IH) auto
  then show ?case
    using kv get leaf fresh by (simp add: bindE_def del: get_prop.simps)
qed

lemma nested_attribute:
  assumes "distinct (map fst nested)" and "list_all (\<lambda>kv. is_leaf (snd kv)) nested"
  shows "bindE (Object_keys (JObj nested)) (\<lambda>attrs. nested_loop (JObj nested) attrs []) =
           Inr (map (\<lambda>kv. (fst kv, spec_leaf (snd kv))) nested)"
  using nested_loop_resolves [OF assms(1), of nested "[]"] assms
  by (simp add: bindE_def list_all_iff)

lemma attributes_loop_step:
  assumes "attribute \<noteq> ''QueueName''" and "get_prop queue attribute = Inr v"
    and "is_attribute_value v" and "attribute \<notin> fst ` set acc"
  shows "attributes_loop queue (attribute # attributes) acc =
           attributes_loop queue attributes (acc @ [(attribute, spec_attribute v)])"
proof (cases v)
  case (JObj nested)
  with assms(3) have "distinct (map fst nested)" "list_all (\<lambda>kv. is_leaf (snd kv)) nested"
    by (simp_all add: is_attribute_value_def)
  from nested_attribute [OF this]
  have "bindE (Object_keys v) (\<lambda>attrs. nested_loop v attrs []) =
          Inr (map (\<lambda>kv. (fst kv, spec_leaf (snd kv))) nested)"
    using JObj by simp
  then show ?thesis
    using assms(1,2,4) JObj
    by (simp add: bindE_def set_prop_last set_prop_fresh spec_attribute_def
        del: get_prop.simps split: sum.splits)
qed (use assms in \<open>simp_all add: bindE_def set_prop_fresh spec_attribute_def
      is_attribute_value_def del: get_prop.simps\<close>)

lemma attributes_loop_builds:
  assumes "distinct (map fst kvs)"
  shows "set xs \<subseteq> set kvs \<Longrightarrow> distinct (map fst xs) \<Longrightarrow>
         \<forall>kv\<in>set xs. fst kv = ''QueueName'' \<or> is_attribute_value (snd kv) \<Longrightarrow>
         fst ` set xs \<inter> fst ` set acc = {} \<Longrightarrow>
         attributes_loop (JObj kvs) (map fst xs) acc = Inr (acc @ spec_attributes xs)"
proof (induction xs arbitrary: acc)
  case Nil
  then show ?case by (simp add: spec_attributes_def)
next
  case (Cons kv xs)
  obtain k v where kv: "kv = (k, v)" by (cases kv)
  show ?case
  proof (cases "k = ''QueueName''")
    case True
    have "attributes_loop (JObj kvs) (map fst xs) acc = Inr (acc @ spec_attributes xs)"
      using Cons.prems by (intro Cons.IH) auto
    with True kv show ?thesis by (simp add: spec_attributes_def)
  next
    case False
    from Cons.prems kv have get: "get_prop (JObj kvs) k = Inr v"
      using assms by (intro get_prop_member) auto
    from Cons.prems kv False have v: "is_attribute_value v" by simp
    from Cons.prems kv have fresh: "k \<notin> fst ` set acc" by auto
    have "attributes_loop (JObj kvs) (map fst xs) (acc @ [(k, spec_attribute v)]) =
            Inr ((acc @ [(k, spec_attribute v)]) @ spec_attributes xs)"
      using Cons.prems kv by (intro Cons.IH) auto
    then show ?thesis
      using attributes_loop_step [OF False get v fresh, of "map fst xs"] kv False
      by (simp add: spec_attributes_def)
  qed
qed

lemma spec_attribute_is_string: "is_attribute_value v \<Longrightarrow> is_string (spec_attribute v)"
  by (cases v) (simp_all add: is_attribute_value_def spec_attribute_def JSON_stringify_def)

text \<open>
  C8. For every queue resource definition of the data model, the argument of the
  create-queue call has the \<^verbatim>\<open>QueueName\<close> of the definition and the attribute map
  that the specification describes: the \<^verbatim>\<open>QueueName\<close> key is skipped, a string or
  numeric attribute is stringified, and a nested mapping is resolved leaf by leaf (strings
  and numbers stringified, a reference replaced by its element 0) and serialized into one
  JSON string; every value of the map is a string, and the map is what
  \<^verbatim>\<open>createInitialQueue\<close> passes to the backend. The witness is the definition of the
  specification: \<^verbatim>\<open>VisibilityTimeout: 30\<close> becomes \<^verbatim>\<open>"30"\<close> and
  \<^verbatim>\<open>RedrivePolicy\<close> becomes one JSON string that holds the resolved reference.
\<close>

theorem createQueue_params_attributes:
  assumes "is_queue_definition (JObj kvs)"
  shows "createQueue_params (JObj kvs) =
           Inr (JObj [(''QueueName'', prop_of (JObj kvs) ''QueueName''),
                      (''Attributes'', JObj (spec_attributes kvs))])
         \<and> list_all (\<lambda>kv. is_string (snd kv)) (spec_attributes kvs)
         \<and> (getClient this = Inr client \<longrightarrow>
              (\<exists>rest. fst (createInitialQueue this client_createQueue (JObj kvs)) =
                 CreateQueue (JObj [(''QueueName'', prop_of (JObj kvs) ''QueueName''),
                                    (''Attributes'', JObj (spec_attributes kvs))]) # rest))"
proof (intro conjI impI)
  from assms have d: "distinct (map fst kvs)"
    and a: "\<forall>kv\<in>set kvs. fst kv = ''QueueName'' \<or> is_attribute_value (snd kv)"
    by (simp_all add: is_queue_definition_def list_all_iff)
  from attributes_loop_builds [OF d, of kvs "[]"] d a
  have "attributes_loop (JObj kvs) (map fst kvs) [] = Inr (spec_attributes kvs)"
    by simp
  then show "createQueue_params (JObj kvs) =
           Inr (JObj [(''QueueName'', prop_of (JObj kvs) ''QueueName''),
                      (''Attributes'', JObj (spec_attributes kvs))])"
    by (simp add: createQueue_params_def get_prop_JObj bindE_def del: get_prop.simps)
  then show "\<exists>rest. fst (createInitialQueue this client_createQueue (JObj kvs)) =
                 CreateQueue (JObj [(''QueueName'', prop_of (JObj kvs) ''QueueName''),
                                    (''Attributes'', JObj (spec_attributes kvs))]) # rest"
    if "getClient this = Inr client"
    using that
    by (cases "client_createQueue (JObj [(''QueueName'', prop_of (JObj kvs) ''QueueName''),
                                    (''Attributes'', JObj (spec_attributes kvs))])")
      (simp_all add: createInitialQueue_def bindE_def)
  from a show "list_all (\<lambda>kv. is_string (snd kv)) (spec_attributes kvs)"
    by (auto simp: spec_attributes_def list_all_iff spec_attribute_is_string)
qed

theorem createQueue_params_attributes_witness:
  \<open>is_queue_definition example_queue
   \<and> createQueue_params example_queue =
       Inr (JObj [(''QueueName'', JStr ''Q''),
                  (''Attributes'', JObj
                     [(''VisibilityTimeout'', JStr ''30''),
                      (''RedrivePolicy'',
                       JStr ''{"maxReceiveCount":"5","deadLetterTargetArn":"DLQ"}'')])])
   \<and> getClient bootstrap_plugin = Inr (JObj [(''region'', JStr ''eu-central-1'')])
   \<and> (\<exists>rest. fst (createInitialQueue bootstrap_plugin accepting_backend example_queue) =
         CreateQueue
           (JObj [(''QueueName'', JStr ''Q''),
                  (''Attributes'', JObj
                     [(''VisibilityTimeout'', JStr ''30''),
                      (''RedrivePolicy'',
                       JStr ''{"maxReceiveCount":"5","deadLetterTargetArn":"DLQ"}'')])]) # rest)\<close>
proof -
  have c: "getClient bootstrap_plugin = Inr (JObj [(''region'', JStr ''eu-central-1'')])"
    by code_simp
  have q: "is_queue_definition (JObj [(''QueueName'', JStr ''Q''),
           (''VisibilityTimeout'', JNum 30),
           (''RedrivePolicy'', JObj [(''maxReceiveCount'', JNum 5),
              (''deadLetterTargetArn'', JObj [(''Fn::GetAtt'', JArr [JStr ''DLQ'', JStr ''Arn''])])])])"
    by code_simp
  have b: \<open>spec_attributes [(''QueueName'', JStr ''Q''),
           (''VisibilityTimeout'', JNum 30),
           (''RedrivePolicy'', JObj [(''maxReceiveCount'', JNum 5),
              (''deadLetterTargetArn'', JObj [(''Fn::GetAtt'', JArr [JStr ''DLQ'', JStr ''Arn''])])])]
      = [(''VisibilityTimeout'', JStr ''30''),
         (''RedrivePolicy'', JStr ''{"maxReceiveCount":"5","deadLetterTargetArn":"DLQ"}'')]\<close>
    by code_simp
  from createQueue_params_attributes [OF q, of bootstrap_plugin
      "JObj [(''region'', JStr ''eu-central-1'')]" accepting_backend] q b c
  show ?thesis
    by (simp add: example_queue_def prop_of_JObj)
qed

text \<open>
  C4 against the code, at a manifest with three queue resources and a backend whose
  create-queue promise is rejected for the second. The \<^verbatim>\<open>try\<close> block of
  \<^verbatim>\<open>createInitialQueue\<close> returns the promise without awaiting it, so its
  \<^verbatim>\<open>catch\<close> clause does not see the rejection: the promise of
  \<^verbatim>\<open>createInitialQueue\<close> is rejected and nothing is logged. All three create-queue
  calls are issued, but \<^verbatim>\<open>await Promise.all(promises)\<close> raises the rejection:
  the hook \<^verbatim>\<open>offlineStartInit\<close> is rejected, and the pollers that a run against an
  accepting backend starts are never started. Only a call that raises at once reaches the
  \<^verbatim>\<open>catch\<close> clause, where the error is logged and swallowed.
\<close>

theorem provisioning_failure_propagates:
  "createInitialQueue bootstrap_plugin rejecting_backend (JObj [(''QueueName'', JStr ''B'')])
     = ([create_call ''B''], Inl (Reason (JStr ''connect ECONNREFUSED'')))
   \<and> createInitialQueue bootstrap_plugin raising_backend (JObj [(''QueueName'', JStr ''B'')])
     = ([create_call ''B'', Log (Console_error (Reason (JStr ''connect ECONNREFUSED'')))],
        Inr JUndefined)
   \<and> offlineStartInit bootstrap_plugin rejecting_backend
     = ([Log (Log_text ''Creating Offline SQS Queues.''),
         Log (Log_text ''Creating Queue First''),
         Log (Log_text ''Creating Queue Second''),
         Log (Log_text ''Creating Queue Third''),
         create_call ''A'', create_call ''B'', create_call ''C''],
        Inl (Reason (JStr ''connect ECONNREFUSED'')))
   \<and> offlineStartInit bootstrap_plugin accepting_backend
     = ([Log (Log_text ''Creating Offline SQS Queues.''),
         Log (Log_text ''Creating Queue First''),
         Log (Log_text ''Creating Queue Second''),
         Log (Log_text ''Creating Queue Third''),
         create_call ''A'', create_call ''B'', create_call ''C'',
         Log Console_blank,
         Log (Log_text ''Starting Offline Kinesis.''),
         Log Console_blank,
         Log (Log_text ''SQS for consumer:''),
         StartPoller ''consumer'' (JObj [(''queueName'', JStr ''A'')]),
         Log Console_blank],
        Inr ())"
  by code_simp


end
